theory Spec2Isabelle
  imports Complex_Main
begin

section \<open>Text helpers\<close>

text \<open>
  Source strings are modelled as \<open>string\<close> (lists of 8-bit characters).  \<open>is_space\<close> is
  the set of characters that Python's \<open>str.strip\<close> and the regular expression class \<open>\s\<close>
  treat as whitespace, restricted to code points below 256.
\<close>

definition is_space :: "char \<Rightarrow> bool" where
  "is_space c \<longleftrightarrow> c \<in> {CHR 0x09, CHR 0x0A, CHR 0x0B, CHR 0x0C, CHR 0x0D,
                        CHR 0x1C, CHR 0x1D, CHR 0x1E, CHR 0x1F, CHR 0x20, CHR 0x85, CHR 0xA0}"

definition lstrip :: "string \<Rightarrow> string" where
  "lstrip s = dropWhile is_space s"

definition rstrip :: "string \<Rightarrow> string" where
  "rstrip s = rev (dropWhile is_space (rev s))"

definition strip :: "string \<Rightarrow> string" where
  "strip s = rstrip (lstrip s)"

section \<open>\<open>cherryscript/parser.py\<close>: \<open>split_statements\<close>\<close>

definition is_quote :: "char \<Rightarrow> bool" where
  \<open>is_quote c \<longleftrightarrow> c = CHR 0x22 \<or> c = CHR 0x27 \<or> c = CHR 0x60\<close>

definition is_open :: "char \<Rightarrow> bool" where
  "is_open c \<longleftrightarrow> c = CHR ''{'' \<or> c = CHR ''['' \<or> c = CHR ''(''"

definition is_close :: "char \<Rightarrow> bool" where
  "is_close c \<longleftrightarrow> c = CHR ''}'' \<or> c = CHR '']'' \<or> c = CHR '')''"

definition re_for_ws :: "string \<Rightarrow> bool" where
  "re_for_ws s = (case s of a # b # c # d # _ \<Rightarrow> a = CHR ''f'' \<and> b = CHR ''o'' \<and> c = CHR ''r'' \<and> is_space d | _ \<Rightarrow> False)"

fun skip_line :: "char option \<Rightarrow> string \<Rightarrow> char option \<times> string" where
  "skip_line p [] = (p, [])"
| "skip_line p (c # cs) = (if c = CHR 0x0A then (Some c, cs) else skip_line (Some c) cs)"

fun skip_block :: "char option \<Rightarrow> string \<Rightarrow> char option \<times> string" where
  "skip_block p (a # b # cs) =
     (if a = CHR ''*'' \<and> b = CHR ''/'' then (Some b, cs) else skip_block (Some a) (b # cs))"
| "skip_block p cs = (p, cs)"

lemma skip_line_le: "length (snd (skip_line p cs)) \<le> length cs"
  by (induction cs arbitrary: p) (auto simp: le_SucI)

lemma skip_block_le: "length (snd (skip_block p cs)) \<le> length cs"
  by (induction p cs rule: skip_block.induct) (auto simp: le_SucI)

lemma skip_block_tl: "length (snd (skip_block p (tl cs))) \<le> length cs"
  using skip_block_le[of p "tl cs"] by simp

definition flush :: "string \<Rightarrow> string list \<Rightarrow> string list" where
  "flush cur parts = (let stmt = strip cur in if stmt \<noteq> [] then parts @ [stmt] else parts)"

function split_loop ::
  "string \<Rightarrow> char option \<Rightarrow> string \<Rightarrow> int \<Rightarrow> bool \<Rightarrow> char option \<Rightarrow> string list \<Rightarrow> string list"
where
  "split_loop [] prev cur depth in_q qchar parts = flush cur parts"
| "split_loop (c # cs) prev cur depth in_q qchar parts =
    (if is_quote c then
       (if \<not> in_q then split_loop cs (Some c) (cur @ [c]) depth True (Some c) parts
        else if qchar = Some c then
          (if prev = Some (CHR 0x5C) then split_loop cs (Some c) (cur @ [c]) depth in_q qchar parts
           else split_loop cs (Some c) (cur @ [c]) depth False None parts)
        else split_loop cs (Some c) (cur @ [c]) depth in_q qchar parts)
     else if \<not> in_q \<and> is_open c then
       split_loop cs (Some c) (cur @ [c]) (depth + 1) in_q qchar parts
     else if \<not> in_q \<and> is_close c then
       split_loop cs (Some c) (cur @ [c]) (max 0 (depth - 1)) in_q qchar parts
     else if \<not> in_q \<and> depth = 0 \<and> c = CHR ''/'' \<and> cs \<noteq> [] \<and> hd cs = CHR ''/'' then
       (let r = skip_line prev (c # cs)
        in split_loop (snd r) (fst r) [] depth in_q qchar (flush cur parts))
     else if \<not> in_q \<and> depth = 0 \<and> c = CHR ''/'' \<and> cs \<noteq> [] \<and> hd cs = CHR ''*'' then
       (let r = skip_block (Some (hd cs)) (tl cs)
        in split_loop (snd r) (fst r) cur depth in_q qchar parts)
     else if \<not> in_q \<and> depth = 0 \<and> c = CHR '';'' then
       (if re_for_ws (strip cur) then split_loop cs (Some c) (cur @ [c]) depth in_q qchar parts
        else split_loop cs (Some c) [] depth in_q qchar (flush cur parts))
     else if \<not> in_q \<and> depth = 0 \<and> c = CHR 0x0A then
       split_loop cs (Some c) [] depth in_q qchar (flush cur parts)
     else split_loop cs (Some c) (cur @ [c]) depth in_q qchar parts)"
  by pat_completeness auto
termination
  by (relation "measure (\<lambda>(text, _). length text)")
     (simp_all add: less_Suc_eq_le skip_line_le skip_block_tl)

definition split_statements :: "string \<Rightarrow> string list" where
  "split_statements text =
     (if strip text = [] then [] else split_loop text None [] 0 False None [])"

section \<open>Values, objects and interpreter state\<close>

datatype val =
    VNone
  | VBool bool
  | VInt int
  | VFloat rat
  | VStr string
  | VRef nat
  | VHandle nat

datatype obj = OList "val list" | ODict "(val \<times> val) list"

datatype pyexc = TypeError | ValueError | ZeroDivisionError | IndexError | KeyError | RecursionError

datatype exn =
    ReturnSignal val
  | BreakSignal
  | ContinueSignal
  | CherryRuntimeError string
  | ParseError string
  | PyExc pyexc
  | Unmodelled string
  | OutOfFuel

record state =
  env :: "string \<rightharpoonup> val"
  fn_table :: "string \<rightharpoonup> string list \<times> string"
  heap :: "obj list"
  out :: "string list"

type_synonym 'a comp = "state \<Rightarrow> (exn + 'a) \<times> state"

definition ret :: "'a \<Rightarrow> 'a comp" where
  "ret x = (\<lambda>s. (Inr x, s))"

definition raise :: "exn \<Rightarrow> 'a comp" where
  "raise e = (\<lambda>s. (Inl e, s))"

definition bnd :: "'a comp \<Rightarrow> ('a \<Rightarrow> 'b comp) \<Rightarrow> 'b comp" where
  "bnd m f = (\<lambda>s. case m s of (Inl e, s') \<Rightarrow> (Inl e, s') | (Inr x, s') \<Rightarrow> f x s')"

definition lift :: "exn + 'a \<Rightarrow> 'a comp" where
  "lift r = (\<lambda>s. (r, s))"

definition is_py_exception :: "exn \<Rightarrow> bool" where
  "is_py_exception e = (case e of Unmodelled _ \<Rightarrow> False | OutOfFuel \<Rightarrow> False | _ \<Rightarrow> True)"

definition alloc :: "obj \<Rightarrow> val comp" where
  "alloc ob = (\<lambda>s. (Inr (VRef (length (heap s))), s\<lparr>heap := heap s @ [ob]\<rparr>))"

definition lookup_obj :: "obj list \<Rightarrow> nat \<Rightarrow> exn + obj" where
  "lookup_obj h a = (if a < length h then Inr (h ! a) else Inl (Unmodelled ''dangling reference''))"

section \<open>Host (Python) semantics of values\<close>

definition py_truthy :: "obj list \<Rightarrow> val \<Rightarrow> exn + bool" where
  "py_truthy h v = (case v of
       VNone \<Rightarrow> Inr False
     | VBool b \<Rightarrow> Inr b
     | VInt i \<Rightarrow> Inr (i \<noteq> 0)
     | VFloat r \<Rightarrow> Inr (r \<noteq> 0)
     | VStr s \<Rightarrow> Inr (s \<noteq> [])
     | VRef a \<Rightarrow> (case lookup_obj h a of
           Inl e \<Rightarrow> Inl e
         | Inr (OList xs) \<Rightarrow> Inr (xs \<noteq> [])
         | Inr (ODict kvs) \<Rightarrow> Inr (kvs \<noteq> []))
     | VHandle _ \<Rightarrow> Inl (Unmodelled ''truth value of a collaborator object''))"

function str_nat :: "nat \<Rightarrow> string" where
  "str_nat n = (if n < 10 then [''0123456789'' ! n] else str_nat (n div 10) @ [''0123456789'' ! (n mod 10)])"
  by pat_completeness auto
termination
  by (relation "measure id") auto

declare str_nat.simps [simp del]

definition str_int :: "int \<Rightarrow> string" where
  "str_int i = (if i < 0 then CHR ''-'' # str_nat (nat (- i)) else str_nat (nat i))"

definition py_str :: "val \<Rightarrow> exn + string" where
  "py_str v = (case v of
       VNone \<Rightarrow> Inr ''None''
     | VBool b \<Rightarrow> Inr (if b then ''True'' else ''False'')
     | VInt i \<Rightarrow> Inr (str_int i)
     | VStr s \<Rightarrow> Inr s
     | VFloat _ \<Rightarrow> Inl (Unmodelled ''str of a float'')
     | VRef _ \<Rightarrow> Inl (Unmodelled ''str of a container'')
     | VHandle _ \<Rightarrow> Inl (Unmodelled ''str of a collaborator object''))"

definition is_digit :: "char \<Rightarrow> bool" where
  "is_digit c \<longleftrightarrow> (48::nat) \<le> of_char c \<and> (of_char c :: nat) \<le> 57"

definition is_alpha_us :: "char \<Rightarrow> bool" where
  "is_alpha_us c \<longleftrightarrow> ((97::nat) \<le> of_char c \<and> (of_char c :: nat) \<le> 122) \<or>
                      ((65::nat) \<le> of_char c \<and> (of_char c :: nat) \<le> 90) \<or> c = CHR ''_''"

definition is_word :: "char \<Rightarrow> bool" where
  "is_word c \<longleftrightarrow> is_alpha_us c \<or> is_digit c"

definition int_of_digits :: "string \<Rightarrow> int" where
  "int_of_digits ds = foldl (\<lambda>acc c. 10 * acc + (of_char c - 48)) 0 ds"

definition int_of_str :: "string \<Rightarrow> int" where
  "int_of_str s = (case s of [] \<Rightarrow> 0
     | c # cs \<Rightarrow> if c = CHR ''-'' then - int_of_digits cs else int_of_digits s)"

definition int_like :: "val \<Rightarrow> int option" where
  "int_like v = (case v of VBool b \<Rightarrow> Some (if b then 1 else 0) | VInt i \<Rightarrow> Some i | _ \<Rightarrow> None)"

definition num_of :: "val \<Rightarrow> rat option" where
  "num_of v = (case v of VBool b \<Rightarrow> Some (if b then 1 else 0) | VInt i \<Rightarrow> Some (of_int i)
     | VFloat r \<Rightarrow> Some r | _ \<Rightarrow> None)"

definition is_str :: "val \<Rightarrow> bool" where
  "is_str v = (case v of VStr _ \<Rightarrow> True | _ \<Rightarrow> False)"

definition is_int :: "val \<Rightarrow> bool" where
  "is_int v = (int_like v \<noteq> None)"

definition is_scalar :: "val \<Rightarrow> bool" where
  \<comment> \<open>every value but a list or dict object; these are the hashable values\<close>
  "is_scalar v = (case v of VRef _ \<Rightarrow> False | _ \<Rightarrow> True)"

subsection \<open>Equality and ordering\<close>

definition scalar_eq :: "val \<Rightarrow> val \<Rightarrow> bool" where
  "scalar_eq a b = (case (num_of a, num_of b) of
       (Some x, Some y) \<Rightarrow> x = y
     | _ \<Rightarrow> (case (a, b) of
           (VNone, VNone) \<Rightarrow> True
         | (VStr s, VStr t) \<Rightarrow> s = t
         | (VHandle i, VHandle j) \<Rightarrow> i = j
         | _ \<Rightarrow> False))"

fun list_eq :: "(val \<Rightarrow> val \<Rightarrow> exn + bool) \<Rightarrow> val list \<Rightarrow> val list \<Rightarrow> exn + bool" where
  "list_eq f [] [] = Inr True"
| "list_eq f (x # xs) (y # ys) =
     (case f x y of Inl e \<Rightarrow> Inl e | Inr b \<Rightarrow> if b then list_eq f xs ys else Inr False)"
| "list_eq f _ _ = Inr False"

fun dict_get :: "(val \<times> val) list \<Rightarrow> val \<Rightarrow> val option" where
  "dict_get [] k = None"
| "dict_get ((k', v) # kvs) k = (if scalar_eq k' k then Some v else dict_get kvs k)"

fun dict_sub :: "(val \<Rightarrow> val \<Rightarrow> exn + bool) \<Rightarrow> (val \<times> val) list \<Rightarrow> (val \<times> val) list \<Rightarrow> exn + bool" where
  "dict_sub f [] ys = Inr True"
| "dict_sub f ((k, v) # xs) ys =
     (case dict_get ys k of
        None \<Rightarrow> Inr False
      | Some w \<Rightarrow> (case f v w of Inl e \<Rightarrow> Inl e
                   | Inr b \<Rightarrow> if b then dict_sub f xs ys else Inr False))"

definition dict_eq :: "(val \<Rightarrow> val \<Rightarrow> exn + bool) \<Rightarrow> (val \<times> val) list \<Rightarrow> (val \<times> val) list \<Rightarrow> exn + bool" where
  "dict_eq f xs ys = (if length xs \<noteq> length ys then Inr False else dict_sub f xs ys)"

fun py_eq :: "nat \<Rightarrow> obj list \<Rightarrow> val \<Rightarrow> val \<Rightarrow> exn + bool" where
  "py_eq n h (VRef a) (VRef b) =
     (if a = b then Inr True
      else (case (lookup_obj h a, lookup_obj h b) of
          (Inl e, _) \<Rightarrow> Inl e
        | (_, Inl e) \<Rightarrow> Inl e
        | (Inr (OList xs), Inr (OList ys)) \<Rightarrow>
            (if length xs \<noteq> length ys then Inr False
             else (case n of 0 \<Rightarrow> Inl (PyExc RecursionError) | Suc m \<Rightarrow> list_eq (py_eq m h) xs ys))
        | (Inr (ODict xs), Inr (ODict ys)) \<Rightarrow>
            (case n of 0 \<Rightarrow> Inl (PyExc RecursionError) | Suc m \<Rightarrow> dict_eq (py_eq m h) xs ys)
        | _ \<Rightarrow> Inr False))"
| "py_eq n h a b = Inr (scalar_eq a b)"

datatype ordop = Lt | Le | Gt | Ge

definition ord_holds :: "ordop \<Rightarrow> ('a::linorder) \<Rightarrow> 'a \<Rightarrow> bool" where
  "ord_holds op x y = (case op of Lt \<Rightarrow> x < y | Le \<Rightarrow> x \<le> y | Gt \<Rightarrow> x > y | Ge \<Rightarrow> x \<ge> y)"

fun str_cmp :: "ordop \<Rightarrow> string \<Rightarrow> string \<Rightarrow> bool" where
  "str_cmp op [] [] = ord_holds op (0::nat) 0"
| "str_cmp op [] (y # ys) = ord_holds op (0::nat) 1"
| "str_cmp op (x # xs) [] = ord_holds op (1::nat) 0"
| "str_cmp op (x # xs) (y # ys) =
     (if x = y then str_cmp op xs ys else ord_holds op (of_char x :: nat) (of_char y))"

fun list_ord :: "(val \<Rightarrow> val \<Rightarrow> exn + bool) \<Rightarrow> (val \<Rightarrow> val \<Rightarrow> exn + bool) \<Rightarrow> ordop \<Rightarrow>
    val list \<Rightarrow> val list \<Rightarrow> exn + bool" where
  "list_ord eq ord op [] [] = Inr (ord_holds op (0::nat) 0)"
| "list_ord eq ord op [] (y # ys) = Inr (ord_holds op (0::nat) 1)"
| "list_ord eq ord op (x # xs) [] = Inr (ord_holds op (1::nat) 0)"
| "list_ord eq ord op (x # xs) (y # ys) =
     (case eq x y of Inl e \<Rightarrow> Inl e
      | Inr b \<Rightarrow> if b then list_ord eq ord op xs ys else ord x y)"

fun py_ord :: "nat \<Rightarrow> obj list \<Rightarrow> ordop \<Rightarrow> val \<Rightarrow> val \<Rightarrow> exn + bool" where
  "py_ord n h op (VRef a) (VRef b) =
     (case (lookup_obj h a, lookup_obj h b) of
          (Inl e, _) \<Rightarrow> Inl e
        | (_, Inl e) \<Rightarrow> Inl e
        | (Inr (OList xs), Inr (OList ys)) \<Rightarrow>
            (case n of 0 \<Rightarrow> Inl (PyExc RecursionError)
             | Suc m \<Rightarrow> list_ord (py_eq m h) (py_ord m h op) op xs ys)
        | _ \<Rightarrow> Inl (PyExc TypeError))"
| "py_ord n h op a b =
     (case (num_of a, num_of b) of
        (Some x, Some y) \<Rightarrow> Inr (ord_holds op x y)
      | _ \<Rightarrow> (case (a, b) of
            (VStr s, VStr t) \<Rightarrow> Inr (str_cmp op s t)
          | _ \<Rightarrow> Inl (PyExc TypeError)))"

definition py_recursion_limit :: nat where
  "py_recursion_limit = 1000"

definition negate :: "exn + bool \<Rightarrow> exn + bool" where
  "negate r = (case r of Inl e \<Rightarrow> Inl e | Inr b \<Rightarrow> Inr (\<not> b))"

definition compare :: "obj list \<Rightarrow> val \<Rightarrow> val \<Rightarrow> string \<Rightarrow> exn + bool" where
  "compare h lhs rhs op =
     (case (if op = ''=='' then py_eq py_recursion_limit h lhs rhs
            else if op = ''!='' then negate (py_eq py_recursion_limit h lhs rhs)
            else if op = ''>'' then py_ord py_recursion_limit h Gt lhs rhs
            else if op = ''<'' then py_ord py_recursion_limit h Lt lhs rhs
            else if op = ''>='' then py_ord py_recursion_limit h Ge lhs rhs
            else if op = ''<='' then py_ord py_recursion_limit h Le lhs rhs
            else Inr False) of
        Inl (PyExc TypeError) \<Rightarrow> Inr False
      | r \<Rightarrow> r)"

section \<open>Scanning helpers shared by the parser and the evaluator\<close>

definition starts_with :: "string \<Rightarrow> string \<Rightarrow> bool" where
  "starts_with p s \<longleftrightarrow> take (length p) s = p"

definition ends_with :: "string \<Rightarrow> string \<Rightarrow> bool" where
  "ends_with p s \<longleftrightarrow> length p \<le> length s \<and> drop (length s - length p) s = p"

definition slice_inner :: "string \<Rightarrow> string" where
  \<comment> \<open>Python \<open>s[1:-1]\<close>\<close>
  "slice_inner s = butlast (tl s)"

definition quote_step :: "char option \<Rightarrow> char \<Rightarrow> bool \<times> char option \<Rightarrow> bool \<times> char option" where
  \<comment> \<open>the quote tracking of every scanner that checks for an escaping backslash:
      \<open>if not in_q: in_q = True; qchar = c  elif qchar == c and (i == 0 or s[i-1] != '\\'): in_q = False\<close>\<close>
  "quote_step prev c q = (case q of (in_q, qchar) \<Rightarrow>
     if \<not> in_q then (True, Some c)
     else if qchar = Some c \<and> prev \<noteq> Some (CHR 0x5C) then (False, None)
     else (in_q, qchar))"

fun split_on :: "char \<Rightarrow> string \<Rightarrow> string list" where
  \<comment> \<open>Python \<open>s.split(sep)\<close> for a one-character separator\<close>
  "split_on sep [] = [[]]"
| "split_on sep (c # cs) =
     (if c = sep then [] # split_on sep cs
      else (case split_on sep cs of [] \<Rightarrow> [[c]] | p # ps \<Rightarrow> (c # p) # ps))"

fun index_of :: "char \<Rightarrow> string \<Rightarrow> nat option" where
  \<comment> \<open>Python \<open>s.index(c)\<close>; None stands for the ValueError\<close>
  "index_of x [] = None"
| "index_of x (c # cs) = (if c = x then Some 0 else map_option Suc (index_of x cs))"

section \<open>\<open>cherryscript/parser.py\<close>: \<open>_split_by_comma\<close> and \<open>parse_call\<close>\<close>

fun split_by_comma_loop ::
  "string \<Rightarrow> char option \<Rightarrow> string \<Rightarrow> int \<Rightarrow> bool \<Rightarrow> char option \<Rightarrow> string list \<Rightarrow> string list"
where
  "split_by_comma_loop [] prev cur depth in_q qchar parts =
     (if cur \<noteq> [] then flush cur parts else parts)"
| "split_by_comma_loop (c # cs) prev cur depth in_q qchar parts =
    (if is_quote c then
       (case quote_step prev c (in_q, qchar) of (in_q', qchar') \<Rightarrow>
          split_by_comma_loop cs (Some c) (cur @ [c]) depth in_q' qchar' parts)
     else if \<not> in_q \<and> is_open c then
       split_by_comma_loop cs (Some c) (cur @ [c]) (depth + 1) in_q qchar parts
     else if \<not> in_q \<and> is_close c then
       split_by_comma_loop cs (Some c) (cur @ [c]) (max 0 (depth - 1)) in_q qchar parts
     else if \<not> in_q \<and> depth = 0 \<and> c = CHR '','' then
       split_by_comma_loop cs (Some c) [] depth in_q qchar (flush cur parts)
     else split_by_comma_loop cs (Some c) (cur @ [c]) depth in_q qchar parts)"

definition split_by_comma :: "string \<Rightarrow> string list" where
  "split_by_comma s = split_by_comma_loop s None [] 0 False None []"

fun parse_call_loop ::
  "string \<Rightarrow> nat \<Rightarrow> char option \<Rightarrow> nat option \<Rightarrow> int \<Rightarrow> bool \<Rightarrow> char option \<Rightarrow> (nat option \<times> int) option"
where
  \<comment> \<open>result: None when the scan raises (depth below zero), else the final \<open>(paren_pos, depth)\<close>\<close>
  "parse_call_loop [] i prev paren_pos depth in_q qchar = Some (paren_pos, depth)"
| "parse_call_loop (c # cs) i prev paren_pos depth in_q qchar =
    (if is_quote c then
       (case quote_step prev c (in_q, qchar) of (in_q', qchar') \<Rightarrow>
          parse_call_loop cs (i + 1) (Some c) paren_pos depth in_q' qchar')
     else if \<not> in_q \<and> c = CHR ''('' then
       parse_call_loop cs (i + 1) (Some c) (if depth = 0 then Some i else paren_pos) (depth + 1) in_q qchar
     else if \<not> in_q \<and> c = CHR '')'' then
       (if depth - 1 < 0 then None
        else parse_call_loop cs (i + 1) (Some c) paren_pos (depth - 1) in_q qchar)
     else parse_call_loop cs (i + 1) (Some c) paren_pos depth in_q qchar)"

definition parse_call :: "string \<Rightarrow> exn + (string \<times> string list)" where
  "parse_call text0 =
    (let text = strip text0 in
     if CHR ''('' \<notin> set text then Inl (ParseError (''Not a function call: '' @ text))
     else (case parse_call_loop text 0 None None 0 False None of
         None \<Rightarrow> Inl (ParseError (''Unbalanced parentheses in: '' @ text))
       | Some (paren_pos, depth) \<Rightarrow>
           if depth \<noteq> 0 then Inl (ParseError (''Unbalanced parentheses in: '' @ text))
           else (case paren_pos of
               None \<Rightarrow> Inl (ParseError (''Not a function call: '' @ text))
             | Some p \<Rightarrow>
                 (let name = strip (take p text);
                      args_text = strip (butlast (drop (p + 1) text))
                  in if args_text = [] then Inr (name, [])
                     else Inr (name, split_by_comma args_text)))))"

section \<open>\<open>cherryscript/runtime/interpreter.py\<close>: text-level helpers\<close>

fun no_unescaped :: "char \<Rightarrow> string \<Rightarrow> bool" where
  \<comment> \<open>the inner \<open>while\<close> of \<open>_is_str_literal\<close>: False when the quote occurs unescaped\<close>
  "no_unescaped q [] = True"
| "no_unescaped q (c # cs) =
     (if c = CHR 0x5C then (case cs of [] \<Rightarrow> True | _ # cs' \<Rightarrow> no_unescaped q cs')
      else if c = q then False
      else no_unescaped q cs)"

definition quoted_by :: "char \<Rightarrow> string \<Rightarrow> bool" where
  "quoted_by q s \<longleftrightarrow> starts_with [q] s \<and> ends_with [q] s \<and> length s \<ge> 2"

definition is_str_literal :: "string \<Rightarrow> bool" where
  \<open>is_str_literal s =
     (if quoted_by (CHR 0x22) s then no_unescaped (CHR 0x22) (slice_inner s)
      else if quoted_by (CHR 0x27) s then no_unescaped (CHR 0x27) (slice_inner s)
      else if quoted_by (CHR 0x60) s then no_unescaped (CHR 0x60) (slice_inner s)
      else False)\<close>

definition unquote :: "string \<Rightarrow> string" where
  "unquote s = slice_inner s"

subsection \<open>The regular expressions of the interpreter\<close>

definition ident_prefix :: "string \<Rightarrow> (string \<times> string) option" where
  \<comment> \<open>\<open>[a-zA-Z_][a-zA-Z0-9_]*\<close> at the start: the identifier and the rest\<close>
  "ident_prefix s = (case s of [] \<Rightarrow> None
     | c # cs \<Rightarrow> if is_alpha_us c then Some (c # takeWhile is_word cs, dropWhile is_word cs) else None)"

definition rest_group :: "string \<Rightarrow> string option" where
  \<comment> \<open>\<open>\s*(.+)$\<close> under \<open>re.S\<close>: the group; the whitespace run gives its last character back
      when nothing else is left\<close>
  "rest_group r = (if lstrip r \<noteq> [] then Some (lstrip r)
                   else if r \<noteq> [] then Some [last r] else None)"

definition re_fn :: "string \<Rightarrow> (string \<times> string \<times> string) option" where
  \<comment> \<open>\<open>^fn\s+([a-zA-Z_][a-zA-Z0-9_]*)\s*\(([^)]*)\)\s*\{(.*)\}$\<close> on a stripped statement\<close>
  "re_fn s =
    (if starts_with ''fn'' s \<and> drop 2 s \<noteq> [] \<and> is_space (hd (drop 2 s)) then
       (case ident_prefix (lstrip (drop 2 s)) of
          None \<Rightarrow> None
        | Some (name, r1) \<Rightarrow>
            (case lstrip r1 of
               [] \<Rightarrow> None
             | c1 # r2 \<Rightarrow>
                 if c1 \<noteq> CHR ''('' then None
                 else (case dropWhile (\<lambda>c. c \<noteq> CHR '')'') r2 of
                    [] \<Rightarrow> None
                  | _ # r3 \<Rightarrow>
                      (case lstrip r3 of
                         [] \<Rightarrow> None
                       | c2 # r4 \<Rightarrow>
                           if c2 = CHR ''{'' \<and> r4 \<noteq> [] \<and> last r4 = CHR ''}''
                           then Some (name, takeWhile (\<lambda>c. c \<noteq> CHR '')'') r2, butlast r4)
                           else None))))
     else None)"

definition re_kw_open :: "string \<Rightarrow> string \<Rightarrow> bool" where
  \<comment> \<open>\<open>^kw\s*[\(\s]\<close> for \<open>kw\<close> = \<open>if\<close> or \<open>while\<close>: the keyword followed by whitespace,
      or by optional whitespace and an opening parenthesis\<close>
  "re_kw_open kw s \<longleftrightarrow> starts_with kw s \<and>
     (let r = drop (length kw) s in
        (r \<noteq> [] \<and> is_space (hd r)) \<or> (lstrip r \<noteq> [] \<and> hd (lstrip r) = CHR ''(''))"

definition re_kw_space :: "string \<Rightarrow> string \<Rightarrow> bool" where
  \<comment> \<open>\<open>^kw\s+\<close>\<close>
  "re_kw_space kw s \<longleftrightarrow> starts_with kw s \<and> drop (length kw) s \<noteq> [] \<and> is_space (hd (drop (length kw) s))"

definition re_return :: "string \<Rightarrow> bool" where
  \<comment> \<open>\<open>^return\b\<close>\<close>
  "re_return s \<longleftrightarrow> starts_with ''return'' s \<and> (drop 6 s = [] \<or> \<not> is_word (hd (drop 6 s)))"

definition re_decl :: "string \<Rightarrow> (string \<times> string) option" where
  \<comment> \<open>\<open>^(?:var|let)\s+([a-zA-Z_][a-zA-Z0-9_]*)\s*=\s*(.+)$\<close>\<close>
  "re_decl s =
    (if re_kw_space ''var'' s \<or> re_kw_space ''let'' s then
       (case ident_prefix (lstrip (drop 3 s)) of
          None \<Rightarrow> None
        | Some (name, r1) \<Rightarrow>
            (case lstrip r1 of
               [] \<Rightarrow> None
             | c # r2 \<Rightarrow> if c = CHR ''='' then map_option (Pair name) (rest_group r2) else None))
     else None)"

definition compound_ops :: "string list" where
  "compound_ops = [''+='', ''-='', ''*='', ''/='', ''%='']"

definition re_compound :: "string \<Rightarrow> (string \<times> string \<times> string) option" where
  \<comment> \<open>\<open>^([a-zA-Z_][a-zA-Z0-9_]*)\s*(\+=|-=|\*=|/=|%=)\s*(.+)$\<close>\<close>
  "re_compound s =
    (case ident_prefix s of
       None \<Rightarrow> None
     | Some (name, r1) \<Rightarrow>
         (let r2 = lstrip r1 in
          if take 2 r2 \<in> set compound_ops
          then map_option (\<lambda>e. (name, take 2 r2, e)) (rest_group (drop 2 r2))
          else None))"

definition re_assign :: "string \<Rightarrow> (string \<times> string) option" where
  \<comment> \<open>\<open>^([a-zA-Z_][a-zA-Z0-9_]*)\s*=\s*(.+)$\<close>\<close>
  "re_assign s =
    (case ident_prefix s of
       None \<Rightarrow> None
     | Some (name, r1) \<Rightarrow>
         (case lstrip r1 of
            [] \<Rightarrow> None
          | c # r2 \<Rightarrow> if c = CHR ''='' then map_option (Pair name) (rest_group r2) else None))"

definition re_call_head :: "string \<Rightarrow> nat option" where
  \<comment> \<open>\<open>^([a-zA-Z_][a-zA-Z0-9_.]*)\s*\(\<close>: the position of the opening parenthesis\<close>
  "re_call_head s = (case s of [] \<Rightarrow> None
     | c # cs \<Rightarrow>
         if is_alpha_us c then
           (let name_rest = takeWhile (\<lambda>c. is_word c \<or> c = CHR ''.'') cs;
                r = dropWhile (\<lambda>c. is_word c \<or> c = CHR ''.'') cs;
                ws = takeWhile is_space r
            in if starts_with ''('' (dropWhile is_space r)
               then Some (1 + length name_rest + length ws) else None)
         else None)"

definition re_int :: "string \<Rightarrow> bool" where
  \<comment> \<open>\<open>^-?[0-9]+$\<close> on a stripped expression\<close>
  "re_int s \<longleftrightarrow> (let ds = (if starts_with ''-'' s then tl s else s) in ds \<noteq> [] \<and> list_all is_digit ds)"

definition re_float :: "string \<Rightarrow> bool" where
  \<comment> \<open>\<open>^-?[0-9]+\.[0-9]+$\<close> on a stripped expression\<close>
  "re_float s \<longleftrightarrow> (let ds = (if starts_with ''-'' s then tl s else s);
                        a = takeWhile is_digit ds; r = dropWhile is_digit ds
                    in a \<noteq> [] \<and> starts_with ''.'' r \<and> tl r \<noteq> [] \<and> list_all is_digit (tl r))"

subsection \<open>Top-level searches\<close>

fun top_level_hits ::
  "string \<Rightarrow> string \<Rightarrow> nat \<Rightarrow> char option \<Rightarrow> int \<Rightarrow> bool \<Rightarrow> char option \<Rightarrow> nat list"
where
  \<comment> \<open>the scanning loop of \<open>_find_ternary\<close>: the positions, in increasing order, where the
      pattern starts at depth zero outside quotes\<close>
  "top_level_hits pat [] i prev depth in_q qchar = []"
| "top_level_hits pat (c # cs) i prev depth in_q qchar =
    (if is_quote c then
       (case quote_step prev c (in_q, qchar) of (in_q', qchar') \<Rightarrow>
          top_level_hits pat cs (i + 1) (Some c) depth in_q' qchar')
     else if \<not> in_q then
       (if is_open c then top_level_hits pat cs (i + 1) (Some c) (depth + 1) in_q qchar
        else if is_close c then top_level_hits pat cs (i + 1) (Some c) (depth - 1) in_q qchar
        else if depth = 0 \<and> starts_with pat (c # cs)
          then i # top_level_hits pat cs (i + 1) (Some c) depth in_q qchar
        else top_level_hits pat cs (i + 1) (Some c) depth in_q qchar)
     else top_level_hits pat cs (i + 1) (Some c) depth in_q qchar)"

fun first_some :: "('a \<Rightarrow> 'b option) \<Rightarrow> 'a list \<Rightarrow> 'b option" where
  "first_some f [] = None"
| "first_some f (x # xs) = (case f x of Some y \<Rightarrow> Some y | None \<Rightarrow> first_some f xs)"

definition find_ternary :: "string \<Rightarrow> (string \<times> string \<times> string) option" where
  "find_ternary expr =
     first_some (\<lambda>if_pos.
        let then_e = strip (take if_pos expr);
            rest = drop (if_pos + 4) expr
        in first_some (\<lambda>j.
             let cond_e = strip (take j rest);
                 else_e = strip (drop (j + 6) rest)
             in if then_e \<noteq> [] \<and> cond_e \<noteq> [] \<and> else_e \<noteq> []
                then Some (then_e, cond_e, else_e) else None)
           (top_level_hits '' else '' rest 0 None 0 False None))
       (rev (top_level_hits '' if '' expr 0 None 0 False None))"

definition unary_minus_context :: "string \<Rightarrow> bool" where
  \<comment> \<open>\<open>left = expr[:i].strip(); not left or left[-1] in ('+', '-', '*', '/', '(', ',', '=')\<close>\<close>
  "unary_minus_context prefix = (let left = strip prefix in left = [] \<or> last left \<in> set ''+-*/(,='')"

fun find_binary_op_loop ::
  "string \<Rightarrow> string \<Rightarrow> string \<Rightarrow> nat \<Rightarrow> char option \<Rightarrow> int \<Rightarrow> bool \<Rightarrow> char option \<Rightarrow> nat option \<Rightarrow> nat option"
where
  "find_binary_op_loop expr op [] i prev depth in_q qchar lastpos = lastpos"
| "find_binary_op_loop expr op (c # cs) i prev depth in_q qchar lastpos =
    (if is_quote c then
       (case quote_step prev c (in_q, qchar) of (in_q', qchar') \<Rightarrow>
          find_binary_op_loop expr op cs (i + 1) (Some c) depth in_q' qchar' lastpos)
     else if \<not> in_q then
       (if is_open c then find_binary_op_loop expr op cs (i + 1) (Some c) (depth + 1) in_q qchar lastpos
        else if is_close c then find_binary_op_loop expr op cs (i + 1) (Some c) (depth - 1) in_q qchar lastpos
        else if depth = 0 \<and> starts_with op (c # cs) then
          (if op = ''-'' \<and> unary_minus_context (take i expr)
             then find_binary_op_loop expr op cs (i + 1) (Some c) depth in_q qchar lastpos
           else if length op > 1 then Some i
           else find_binary_op_loop expr op cs (i + 1) (Some c) depth in_q qchar (Some i))
        else find_binary_op_loop expr op cs (i + 1) (Some c) depth in_q qchar lastpos)
     else find_binary_op_loop expr op cs (i + 1) (Some c) depth in_q qchar lastpos)"

definition find_binary_op :: "string \<Rightarrow> string \<Rightarrow> nat option" where
  \<comment> \<open>None stands for the source's \<open>-1\<close>\<close>
  "find_binary_op expr op = find_binary_op_loop expr op expr 0 None 0 False None None"

fun first_close_loop ::
  "string \<Rightarrow> nat \<Rightarrow> char option \<Rightarrow> int \<Rightarrow> bool \<Rightarrow> char option \<Rightarrow> nat option"
where
  \<comment> \<open>the check in \<open>_eval\<close> that the first parenthesis of a call closes at the last character\<close>
  "first_close_loop [] ci prev depth in_q qchar = None"
| "first_close_loop (cc # cs) ci prev depth in_q qchar =
    (if is_quote cc then
       (case quote_step prev cc (in_q, qchar) of (in_q', qchar') \<Rightarrow>
          first_close_loop cs (ci + 1) (Some cc) depth in_q' qchar')
     else if \<not> in_q then
       (if cc = CHR ''('' then first_close_loop cs (ci + 1) (Some cc) (depth + 1) in_q qchar
        else if cc = CHR '')'' then
          (if depth - 1 = 0 then Some ci
           else first_close_loop cs (ci + 1) (Some cc) (depth - 1) in_q qchar)
        else first_close_loop cs (ci + 1) (Some cc) depth in_q qchar)
     else first_close_loop cs (ci + 1) (Some cc) depth in_q qchar)"

definition clean_call :: "string \<Rightarrow> bool" where
  "clean_call expr = (case re_call_head expr of
       None \<Rightarrow> False
     | Some open_pos \<Rightarrow> ends_with '')'' expr \<and>
         first_close_loop (drop open_pos expr) open_pos
            (if open_pos = 0 then None else Some (expr ! (open_pos - 1))) 0 False None
         = Some (length expr - 1))"

section \<open>Host operators on values\<close>

definition truthy :: "val \<Rightarrow> bool comp" where
  "truthy v = (\<lambda>s. (py_truthy (heap s) v, s))"

definition get_list :: "obj list \<Rightarrow> val \<Rightarrow> val list option" where
  "get_list h v = (case v of VRef a \<Rightarrow> (case lookup_obj h a of Inr (OList xs) \<Rightarrow> Some xs | _ \<Rightarrow> None)
     | _ \<Rightarrow> None)"

definition get_dict :: "obj list \<Rightarrow> val \<Rightarrow> (val \<times> val) list option" where
  "get_dict h v = (case v of VRef a \<Rightarrow> (case lookup_obj h a of Inr (ODict kvs) \<Rightarrow> Some kvs | _ \<Rightarrow> None)
     | _ \<Rightarrow> None)"

definition str_repeat :: "string \<Rightarrow> int \<Rightarrow> string" where
  "str_repeat s n = concat (replicate (nat n) s)"

definition reading :: "(state \<Rightarrow> 'a comp) \<Rightarrow> 'a comp" where
  \<comment> \<open>a computation that depends on the current state\<close>
  "reading g = (\<lambda>s. g s s)"

definition py_add :: "val \<Rightarrow> val \<Rightarrow> val comp" where
  "py_add a b =
     (case (int_like a, int_like b) of
       (Some x, Some y) \<Rightarrow> ret (VInt (x + y))
     | _ \<Rightarrow> (case (num_of a, num_of b) of
         (Some _, Some _) \<Rightarrow> raise (Unmodelled ''float arithmetic'')
       | _ \<Rightarrow> (case (a, b) of
           (VStr x, VStr y) \<Rightarrow> ret (VStr (x @ y))
         | _ \<Rightarrow> reading (\<lambda>s. case (get_list (heap s) a, get_list (heap s) b) of
             (Some xs, Some ys) \<Rightarrow> alloc (OList (xs @ ys))
           | _ \<Rightarrow> raise (PyExc TypeError)))))"

definition py_sub :: "val \<Rightarrow> val \<Rightarrow> val comp" where
  "py_sub a b = (case (int_like a, int_like b) of
       (Some x, Some y) \<Rightarrow> ret (VInt (x - y))
     | _ \<Rightarrow> (case (num_of a, num_of b) of
         (Some _, Some _) \<Rightarrow> raise (Unmodelled ''float arithmetic'')
       | _ \<Rightarrow> raise (PyExc TypeError)))"

definition py_mul :: "val \<Rightarrow> val \<Rightarrow> val comp" where
  "py_mul a b =
     (case (int_like a, int_like b) of
       (Some x, Some y) \<Rightarrow> ret (VInt (x * y))
     | _ \<Rightarrow> (case (num_of a, num_of b) of
         (Some _, Some _) \<Rightarrow> raise (Unmodelled ''float arithmetic'')
       | _ \<Rightarrow> (case (a, int_like b, int_like a, b) of
           (VStr x, Some n, _, _) \<Rightarrow> ret (VStr (str_repeat x n))
         | (_, _, Some n, VStr y) \<Rightarrow> ret (VStr (str_repeat y n))
         | _ \<Rightarrow> reading (\<lambda>s.
             case (get_list (heap s) a, int_like b, int_like a, get_list (heap s) b) of
               (Some xs, Some n, _, _) \<Rightarrow> alloc (OList (concat (replicate (nat n) xs)))
             | (_, _, Some n, Some ys) \<Rightarrow> alloc (OList (concat (replicate (nat n) ys)))
             | _ \<Rightarrow> raise (PyExc TypeError)))))"

definition py_floordiv :: "val \<Rightarrow> val \<Rightarrow> val comp" where
  "py_floordiv a b = (case (int_like a, int_like b) of
       (Some x, Some y) \<Rightarrow> if y = 0 then raise (PyExc ZeroDivisionError) else ret (VInt (x div y))
     | _ \<Rightarrow> (case (num_of a, num_of b) of
         (Some _, Some y) \<Rightarrow> if y = 0 then raise (PyExc ZeroDivisionError)
                              else raise (Unmodelled ''float arithmetic'')
       | _ \<Rightarrow> raise (PyExc TypeError)))"

definition py_truediv :: "val \<Rightarrow> val \<Rightarrow> val comp" where
  "py_truediv a b = (case (num_of a, num_of b) of
       (Some _, Some y) \<Rightarrow> if y = 0 then raise (PyExc ZeroDivisionError)
                            else raise (Unmodelled ''float arithmetic'')
     | _ \<Rightarrow> raise (PyExc TypeError))"

definition py_mod :: "val \<Rightarrow> val \<Rightarrow> val comp" where
  "py_mod a b = (case (int_like a, int_like b) of
       (Some x, Some y) \<Rightarrow> if y = 0 then raise (PyExc ZeroDivisionError) else ret (VInt (x mod y))
     | _ \<Rightarrow> (case (num_of a, num_of b) of
         (Some _, Some y) \<Rightarrow> if y = 0 then raise (PyExc ZeroDivisionError)
                              else raise (Unmodelled ''float arithmetic'')
       | _ \<Rightarrow> if is_str a then raise (Unmodelled ''printf-style formatting'')
              else raise (PyExc TypeError)))"

definition py_pow :: "val \<Rightarrow> val \<Rightarrow> val comp" where
  "py_pow a b = (case (int_like a, int_like b) of
       (Some x, Some y) \<Rightarrow>
         if 0 \<le> y then ret (VInt (x ^ nat y))
         else if x = 0 then raise (PyExc ZeroDivisionError)
         else raise (Unmodelled ''float arithmetic'')
     | _ \<Rightarrow> (case (num_of a, num_of b) of
         (Some _, Some _) \<Rightarrow> raise (Unmodelled ''float arithmetic'')
       | _ \<Rightarrow> raise (PyExc TypeError)))"

definition py_index :: "val list \<Rightarrow> int \<Rightarrow> val option" where
  \<comment> \<open>\<open>xs[i]\<close> with Python's negative indices; None stands for the IndexError\<close>
  "py_index xs i = (let n = int (length xs); j = (if i < 0 then n + i else i)
                    in if 0 \<le> j \<and> j < n then Some (xs ! nat j) else None)"

definition subscript :: "val \<Rightarrow> val \<Rightarrow> val comp" where
  \<comment> \<open>\<open>try: return obj[key]  except (KeyError, IndexError, TypeError): return None\<close>\<close>
  "subscript ob key = reading (\<lambda>s.
     case ob of
       VStr str \<Rightarrow> (case int_like key of
            Some i \<Rightarrow> (case py_index (map (\<lambda>c. VStr [c]) str) i of Some v \<Rightarrow> ret v | None \<Rightarrow> ret VNone)
          | None \<Rightarrow> ret VNone)
     | VHandle _ \<Rightarrow> raise (Unmodelled ''collaborator object'')
     | _ \<Rightarrow> (case get_list (heap s) ob of
          Some xs \<Rightarrow> (case int_like key of
              Some i \<Rightarrow> (case py_index xs i of Some v \<Rightarrow> ret v | None \<Rightarrow> ret VNone)
            | None \<Rightarrow> ret VNone)
        | None \<Rightarrow> (case get_dict (heap s) ob of
            Some kvs \<Rightarrow> (if is_scalar key
                         then (case dict_get kvs key of Some v \<Rightarrow> ret v | None \<Rightarrow> ret VNone)
                         else ret VNone)
          | None \<Rightarrow> ret VNone)))"

section \<open>Sequencing helpers\<close>

fun mapM :: "('a \<Rightarrow> 'b comp) \<Rightarrow> 'a list \<Rightarrow> 'b list comp" where
  "mapM f [] = ret []"
| "mapM f (x # xs) = bnd (f x) (\<lambda>y. bnd (mapM f xs) (\<lambda>ys. ret (y # ys)))"

definition print_line :: "string \<Rightarrow> unit comp" where
  "print_line l = (\<lambda>s. (Inr (), s\<lparr>out := out s @ [l]\<rparr>))"

definition set_var :: "string \<Rightarrow> val \<Rightarrow> unit comp" where
  "set_var name v = (\<lambda>s. (Inr (), s\<lparr>env := (env s)(name \<mapsto> v)\<rparr>))"

definition catch_exception :: "'a comp \<Rightarrow> 'a option comp" where
  \<comment> \<open>\<open>try: ... except Exception: pass\<close>: every exception of the program is swallowed;
      the two outcomes that only the model has are passed on\<close>
  "catch_exception m = (\<lambda>s. case m s of
       (Inr v, s') \<Rightarrow> (Inr (Some v), s')
     | (Inl e, s') \<Rightarrow> if is_py_exception e then (Inr None, s') else (Inl e, s'))"

fun join_with :: "string \<Rightarrow> string list \<Rightarrow> string" where
  "join_with sep [] = []"
| "join_with sep [x] = x"
| "join_with sep (x # y # ys) = x @ sep @ join_with sep (y # ys)"

section \<open>String literals: interpolation and escapes\<close>

function interp_segments :: "string \<Rightarrow> (char + string) list" where
  \<comment> \<open>the matches of \<open>\$\{([^}]+)\}\<close> found by \<open>re.sub\<close>, left to right and non-overlapping:
      \<open>Inr key\<close> for a match, \<open>Inl c\<close> for a character outside every match\<close>
  "interp_segments [] = []"
| "interp_segments (c # cs) =
     (if c = CHR ''$'' \<and> starts_with ''{'' cs \<and>
         takeWhile (\<lambda>x. x \<noteq> CHR ''}'') (tl cs) \<noteq> [] \<and> dropWhile (\<lambda>x. x \<noteq> CHR ''}'') (tl cs) \<noteq> []
      then Inr (takeWhile (\<lambda>x. x \<noteq> CHR ''}'') (tl cs))
             # interp_segments (tl (dropWhile (\<lambda>x. x \<noteq> CHR ''}'') (tl cs)))
      else Inl c # interp_segments cs)"
  by pat_completeness auto
termination
proof (relation "measure length", goal_cases)
  case 1 show ?case by simp
next
  case (2 c cs)
  have "length (tl (dropWhile (\<lambda>x. x \<noteq> CHR ''}'') (tl cs))) \<le> length cs"
    by (metis diff_le_self le_trans length_dropWhile_le length_tl)
  then show ?case by simp
next
  case (3 c cs) show ?case by simp
qed

declare interp_segments.simps [simp del]

definition interpolate :: "(string \<Rightarrow> val comp) \<Rightarrow> string \<Rightarrow> string comp" where
  "interpolate ev raw =
     bnd (mapM (\<lambda>seg. case seg of
                   Inl c \<Rightarrow> ret [c]
                 | Inr key \<Rightarrow> bnd (ev (strip key)) (\<lambda>v. lift (py_str v)))
               (interp_segments raw))
         (\<lambda>chunks. ret (concat chunks))"

function replace_all :: "string \<Rightarrow> string \<Rightarrow> string \<Rightarrow> string" where
  \<comment> \<open>Python \<open>s.replace(old, new)\<close> for a non-empty \<open>old\<close>\<close>
  "replace_all old new [] = []"
| "replace_all old new (c # cs) =
     (if old \<noteq> [] \<and> starts_with old (c # cs)
      then new @ replace_all old new (drop (length old) (c # cs))
      else c # replace_all old new cs)"
  by pat_completeness auto
termination
  by (relation "measure (\<lambda>(old, new, s). length s)") (auto simp: Suc_le_eq)

declare replace_all.simps [simp del]

definition unescape :: "string \<Rightarrow> string" where
  \<comment> \<open>\<open>raw.replace('\\n', '\n').replace('\\t', '\t')\<close>\<close>
  "unescape raw = replace_all [CHR 0x5C, CHR ''t''] [CHR 0x09] (replace_all [CHR 0x5C, CHR ''n''] [CHR 0x0A] raw)"

section \<open>Dict literals and subscripts\<close>

fun dict_set :: "(val \<times> val) list \<Rightarrow> val \<Rightarrow> val \<Rightarrow> (val \<times> val) list" where
  \<comment> \<open>\<open>result[k] = v\<close> on an insertion-ordered dict\<close>
  "dict_set [] k v = [(k, v)]"
| "dict_set ((k', v') # kvs) k v =
     (if scalar_eq k' k then (k', v) # kvs else (k', v') # dict_set kvs k v)"

fun dict_pairs :: "(string \<Rightarrow> val comp) \<Rightarrow> string list \<Rightarrow> (val \<times> val) list \<Rightarrow> (val \<times> val) list comp" where
  "dict_pairs ev [] acc = ret acc"
| "dict_pairs ev (pair # ps) acc =
     (case index_of (CHR '':'') pair of
        None \<Rightarrow> raise (PyExc ValueError)
      | Some colon \<Rightarrow>
          bnd (ev (strip (take colon pair))) (\<lambda>k.
          bnd (ev (strip (drop (colon + 1) pair))) (\<lambda>v.
          if is_scalar k then dict_pairs ev ps (dict_set acc k v)
          else raise (PyExc TypeError))))"

definition eval_dict :: "(string \<Rightarrow> val comp) \<Rightarrow> string \<Rightarrow> val comp" where
  "eval_dict ev expr =
     (let inner = strip (slice_inner expr) in
      if inner = [] then alloc (ODict [])
      else bnd (dict_pairs ev (split_by_comma inner) []) (\<lambda>kvs. alloc (ODict kvs)))"

fun bracket_start_loop :: "string \<Rightarrow> int \<Rightarrow> bool \<Rightarrow> nat option" where
  \<comment> \<open>the backwards scan of \<open>_eval_subscript_chain\<close>; the first argument is the text still
      to scan, last character first, so the index of its head is the length of its tail\<close>
  "bracket_start_loop [] depth in_q = None"
| "bracket_start_loop (c # earlier) depth in_q =
     (if is_quote c \<and> (earlier = [] \<or> hd earlier \<noteq> CHR 0x5C)
        then bracket_start_loop earlier depth (\<not> in_q)
      else if \<not> in_q then
        (if c = CHR '']'' then bracket_start_loop earlier (depth + 1) in_q
         else if c = CHR ''['' then
           (if depth - 1 = 0 then Some (length earlier)
            else bracket_start_loop earlier (depth - 1) in_q)
         else bracket_start_loop earlier depth in_q)
      else bracket_start_loop earlier depth in_q)"

definition eval_subscript_chain :: "(string \<Rightarrow> val comp) \<Rightarrow> string \<Rightarrow> val option comp" where
  \<comment> \<open>None stands for the sentinel \<open>_UNRESOLVED\<close>\<close>
  "eval_subscript_chain ev expr =
     (if \<not> ends_with '']'' expr then ret None
      else case bracket_start_loop (rev expr) 0 False of
          None \<Rightarrow> ret None
        | Some bracket_start \<Rightarrow>
            if bracket_start \<le> 0 then ret None
            else (let base_expr = strip (take bracket_start expr);
                      key_expr = strip (butlast (drop (bracket_start + 1) expr))
                  in bnd (ev base_expr) (\<lambda>ob.
                     bnd (ev key_expr) (\<lambda>key.
                     bnd (subscript ob key) (\<lambda>v. ret (Some v))))))"

section \<open>\<open>Runtime._run_call\<close>\<close>

definition arg_or :: "(string \<Rightarrow> val comp) \<Rightarrow> string list \<Rightarrow> nat \<Rightarrow> val \<Rightarrow> val comp" where
  \<comment> \<open>\<open>self._eval(args[i]) if len(args) > i else default\<close>\<close>
  "arg_or ev args i dflt = (if i < length args then ev (args ! i) else ret dflt)"

definition py_int :: "val \<Rightarrow> int comp" where
  \<comment> \<open>the builtin \<open>int(v)\<close>\<close>
  "py_int v = (case v of
       VInt i \<Rightarrow> ret i
     | VBool b \<Rightarrow> ret (if b then 1 else 0)
     | VStr s \<Rightarrow> if re_int (strip s) then ret (int_of_str (strip s))
                 else raise (Unmodelled ''int of a string that is not a plain decimal'')
     | VFloat _ \<Rightarrow> raise (Unmodelled ''float arithmetic'')
     | _ \<Rightarrow> raise (PyExc TypeError))"

function py_range :: "int \<Rightarrow> int \<Rightarrow> int \<Rightarrow> int list" where
  \<comment> \<open>\<open>list(range(a, b, step))\<close> for a non-zero step\<close>
  "py_range a b step =
     (if (0 < step \<and> a < b) \<or> (step < 0 \<and> b < a) then a # py_range (a + step) b step else [])"
  by pat_completeness auto
termination
  by (relation "measure (\<lambda>(a, b, step). nat (if 0 < step then b - a else a - b))") auto

declare py_range.simps [simp del]

fun py_sum :: "val \<Rightarrow> val list \<Rightarrow> val comp" where
  \<comment> \<open>the builtin \<open>sum\<close>: the items are added to the start value 0 from left to right\<close>
  "py_sum acc [] = ret acc"
| "py_sum acc (x # xs) = bnd (py_add acc x) (\<lambda>acc'. py_sum acc' xs)"

definition update_obj :: "nat \<Rightarrow> obj \<Rightarrow> unit comp" where
  "update_obj a ob = (\<lambda>s. (Inr (), s\<lparr>heap := (heap s)[a := ob]\<rparr>))"

definition list_append :: "val \<Rightarrow> val \<Rightarrow> bool comp" where
  \<comment> \<open>\<open>if isinstance(lst, list): lst.append(item)\<close>; the result tells whether it was a list\<close>
  "list_append lst item = reading (\<lambda>s.
     case lst of
       VRef a \<Rightarrow> (case get_list (heap s) lst of
           Some xs \<Rightarrow> bnd (update_obj a (OList (xs @ [item]))) (\<lambda>_. ret True)
         | None \<Rightarrow> ret False)
     | _ \<Rightarrow> ret False)"

definition dict_keys :: "val \<Rightarrow> val comp" where
  \<comment> \<open>\<open>list(v.keys()) if isinstance(v, dict) else []\<close>\<close>
  "dict_keys v = reading (\<lambda>s.
     case get_dict (heap s) v of
       Some kvs \<Rightarrow> alloc (OList (map fst kvs))
     | None \<Rightarrow> alloc (OList []))"

definition py_len :: "val \<Rightarrow> val comp" where
  "py_len v = reading (\<lambda>s.
     case v of
       VNone \<Rightarrow> ret (VInt 0)
     | VStr str \<Rightarrow> ret (VInt (int (length str)))
     | VRef a \<Rightarrow> (case lookup_obj (heap s) a of
           Inl e \<Rightarrow> raise e
         | Inr (OList xs) \<Rightarrow> ret (VInt (int (length xs)))
         | Inr (ODict kvs) \<Rightarrow> ret (VInt (int (length kvs))))
     | VHandle _ \<Rightarrow> raise (Unmodelled ''collaborator object'')
     | _ \<Rightarrow> raise (PyExc TypeError))"

definition sum_items :: "val \<Rightarrow> val comp" where
  \<comment> \<open>\<open>sum(v)\<close> for a list (its items) or a dict (its keys); other values cannot be summed\<close>
  "sum_items v = reading (\<lambda>s.
     case get_list (heap s) v of
       Some xs \<Rightarrow> py_sum (VInt 0) xs
     | None \<Rightarrow> (case get_dict (heap s) v of
           Some kvs \<Rightarrow> py_sum (VInt 0) (map fst kvs)
         | None \<Rightarrow> raise (PyExc TypeError)))"

definition resolve_step :: "val \<Rightarrow> string \<Rightarrow> val comp" where
  \<comment> \<open>one segment of a dotted path: a dict key, else a host attribute (not modelled)\<close>
  "resolve_step ob attr =
     (if ob = VNone then ret VNone
      else reading (\<lambda>s.
        case get_dict (heap s) ob of
          Some kvs \<Rightarrow> (case dict_get kvs (VStr attr) of
              Some v \<Rightarrow> ret v
            | None \<Rightarrow> raise (Unmodelled ''host attribute lookup''))
        | None \<Rightarrow> raise (Unmodelled ''host attribute lookup'')))"

fun resolve_path :: "val \<Rightarrow> string list \<Rightarrow> val comp" where
  "resolve_path ob [] = ret ob"
| "resolve_path ob (attr # attrs) = bnd (resolve_step ob attr) (\<lambda>ob'. resolve_path ob' attrs)"

definition dict_setdefault :: "nat \<Rightarrow> val list \<Rightarrow> val option comp" where
  \<comment> \<open>\<open>d.setdefault(key[, default])\<close> on the dict object at an address\<close>
  "dict_setdefault a vs =
     (if vs = [] \<or> length vs > 2 \<or> \<not> is_scalar (hd vs) then raise (PyExc TypeError)
      else reading (\<lambda>s.
        case get_dict (heap s) (VRef a) of
          None \<Rightarrow> raise (PyExc TypeError)
        | Some kvs \<Rightarrow> (case dict_get kvs (hd vs) of
              Some v \<Rightarrow> ret (Some v)
            | None \<Rightarrow> bnd (update_obj a (ODict (kvs @ [(hd vs, if length vs = 2 then vs ! 1 else VNone)])))
                         (\<lambda>_. ret (Some (if length vs = 2 then vs ! 1 else VNone))))))"

definition host_method :: "(string \<Rightarrow> val comp) \<Rightarrow> val \<Rightarrow> string \<Rightarrow> string list \<Rightarrow> val option comp" where
  \<comment> \<open>\<open>attr = getattr(obj, method, None); if callable(attr): return attr(*evaluated_args)\<close>.
      Of the host's methods only \<open>clear\<close> (lists and dicts) and \<open>setdefault\<close> (dicts) are
      modelled; \<open>None\<close> has no public attribute, so the call falls through\<close>
  "host_method ev ob method args =
     (if ob = VNone then ret None
      else reading (\<lambda>s. case ob of
         VRef a \<Rightarrow> (case lookup_obj (heap s) a of
             Inl e \<Rightarrow> raise e
           | Inr target \<Rightarrow>
               if method = ''clear'' then
                 bnd (mapM ev args) (\<lambda>vs.
                   if vs \<noteq> [] then raise (PyExc TypeError)
                   else bnd (update_obj a (case target of OList _ \<Rightarrow> OList [] | ODict _ \<Rightarrow> ODict []))
                            (\<lambda>_. ret (Some VNone)))
               else if method = ''setdefault'' \<and> (case target of ODict _ \<Rightarrow> True | _ \<Rightarrow> False) then
                 bnd (mapM ev args) (dict_setdefault a)
               else raise (Unmodelled ''host method''))
       | _ \<Rightarrow> raise (Unmodelled ''host method'')))"

definition dict_get_or :: "val \<Rightarrow> val \<Rightarrow> val \<Rightarrow> val option comp" where
  \<comment> \<open>\<open>obj.get(key_val, default) if isinstance(obj, dict) else default\<close>\<close>
  "dict_get_or ob key_val dflt = reading (\<lambda>s.
     case get_dict (heap s) ob of
       Some kvs \<Rightarrow> if is_scalar key_val
                    then ret (Some (case dict_get kvs key_val of Some v \<Rightarrow> v | None \<Rightarrow> dflt))
                    else raise (PyExc TypeError)
     | None \<Rightarrow> ret (Some dflt))"

definition str_replace :: "val \<Rightarrow> val \<Rightarrow> val \<Rightarrow> val option comp" where
  \<comment> \<open>\<open>obj.replace(a, b)\<close> on a string \<open>obj\<close>\<close>
  "str_replace ob a b = (case (ob, a, b) of
       (VStr str, VStr old, VStr new) \<Rightarrow>
          if old = [] then raise (Unmodelled ''replace of the empty string'')
          else ret (Some (VStr (replace_all old new str)))
     | _ \<Rightarrow> raise (PyExc TypeError))"

definition call_method :: "(string \<Rightarrow> val comp) \<Rightarrow> string \<Rightarrow> string list \<Rightarrow> val option comp" where
  \<comment> \<open>the branch \<open>if '.' in name\<close>; the result None means that no case returned\<close>
  "call_method ev name args =
     (let parts = split_on (CHR ''.'') name;
          method = last parts
      in bnd (reading (\<lambda>s. ret (case env s (hd parts) of Some v \<Rightarrow> v | None \<Rightarrow> VNone))) (\<lambda>ob0.
         bnd (resolve_path ob0 (butlast (tl parts))) (\<lambda>ob. reading (\<lambda>s.
           if (case ob of VHandle _ \<Rightarrow> True | _ \<Rightarrow> False) then raise (Unmodelled ''collaborator object'')
           else if method = ''get'' then
             bnd (arg_or ev args 0 VNone) (\<lambda>key_val.
             bnd (arg_or ev args 1 VNone) (\<lambda>default. dict_get_or ob key_val default))
           else if method = ''replace'' \<and> is_str ob then
             bnd (arg_or ev args 0 (VStr [])) (\<lambda>a.
             bnd (arg_or ev args 1 (VStr [])) (\<lambda>b. str_replace ob a b))
           else if method = ''append'' \<and> get_list (heap s) ob \<noteq> None then
             bnd (arg_or ev args 0 VNone) (\<lambda>item.
             bnd (list_append ob item) (\<lambda>_. ret (Some ob)))
           else if method = ''keys'' \<and> get_dict (heap s) ob \<noteq> None then
             bnd (dict_keys ob) (\<lambda>v. ret (Some v))
           else host_method ev ob method args))))"

definition bind_params :: "string list \<Rightarrow> val list \<Rightarrow> (string \<rightharpoonup> val) \<Rightarrow> (string \<rightharpoonup> val)" where
  \<comment> \<open>\<open>for p, v in zip(params, evaluated_args): self.env[p] = v\<close>\<close>
  "bind_params params vals e = fold (\<lambda>(p, v) e'. e'(p \<mapsto> v)) (zip params vals) e"

fun run_stmts :: "(string \<Rightarrow> val comp) \<Rightarrow> string list \<Rightarrow> unit comp" where
  \<comment> \<open>\<open>for st in stmts: st = st.strip(); if st: self._run_stmt(st)\<close>\<close>
  "run_stmts rs [] = ret ()"
| "run_stmts rs (st # sts) =
     (if strip st \<noteq> [] then bnd (rs (strip st)) (\<lambda>_. run_stmts rs sts) else run_stmts rs sts)"

definition call_user :: "(string \<Rightarrow> val comp) \<Rightarrow> (string \<Rightarrow> val comp) \<Rightarrow> string \<Rightarrow> string list \<Rightarrow> val comp" where
  "call_user ev rs name args = (\<lambda>s0.
     case fn_table s0 name of
       Some (params, body) \<Rightarrow>
         bnd (mapM ev args) (\<lambda>evaluated_args. \<lambda>s.
           let saved_env = env s;
               s1 = s\<lparr>env := bind_params params evaluated_args (env s)\<rparr>
           in case run_stmts rs (split_statements body) s1 of
                (Inl (ReturnSignal v), s2) \<Rightarrow> (Inr v, s2\<lparr>env := saved_env\<rparr>)
              | (Inl e, s2) \<Rightarrow> (Inl e, s2\<lparr>env := saved_env\<rparr>)
              | (Inr _, s2) \<Rightarrow> (Inr VNone, s2\<lparr>env := saved_env\<rparr>)) s0
     | None \<Rightarrow>
         bnd (print_line (''[warn] Unknown function: '' @ name)) (\<lambda>_. ret VNone) s0)"

definition run_call :: "(string \<Rightarrow> val comp) \<Rightarrow> (string \<Rightarrow> val comp) \<Rightarrow> string \<Rightarrow> string list \<Rightarrow> val comp" where
  "run_call ev rs name args =
    (if name = ''print'' then
       bnd (mapM ev args) (\<lambda>parts.
       bnd (mapM (\<lambda>v. lift (py_str v)) parts) (\<lambda>strs.
       bnd (print_line (join_with '' '' strs)) (\<lambda>_. ret VNone)))
     else if name = ''len'' then
       bnd (arg_or ev args 0 VNone) py_len
     else if name = ''range'' then
       bnd (mapM (\<lambda>a. bnd (ev a) py_int) args) (\<lambda>vals.
         if length vals = 1 then alloc (OList (map VInt (py_range 0 (vals ! 0) 1)))
         else if length vals = 2 then alloc (OList (map VInt (py_range (vals ! 0) (vals ! 1) 1)))
         else if length vals \<ge> 3 then
           (if vals ! 2 = 0 then raise (PyExc ValueError)
            else alloc (OList (map VInt (py_range (vals ! 0) (vals ! 1) (vals ! 2)))))
         else alloc (OList []))
     else if name = ''sum'' then
       bnd (if args \<noteq> [] then ev (args ! 0) else alloc (OList [])) (\<lambda>v.
       bnd (truthy v) (\<lambda>t. if \<not> t then ret (VInt 0) else sum_items v))
     else if name \<in> {''min'', ''max'', ''format'', ''time''} then
       raise (Unmodelled ''builtin'')
     else if name = ''append'' then
       (if args = [] then raise (PyExc IndexError)
        else bnd (ev (args ! 0)) (\<lambda>lst.
             bnd (arg_or ev args 1 VNone) (\<lambda>item.
             bnd (list_append lst item) (\<lambda>_. ret lst))))
     else if name = ''keys'' then
       bnd (if args \<noteq> [] then ev (args ! 0) else alloc (ODict [])) dict_keys
     else if name \<in> {''connect'', ''h2o.frame'', ''h2o.automl'', ''deploy'', ''undeploy''} then
       raise (Unmodelled ''collaborator call'')
     else if name = ''h2o.preprocess'' then
       arg_or ev args 0 VNone
     else
       bnd (if CHR ''.'' \<in> set name then call_method ev name args else ret None) (\<lambda>r.
         case r of Some v \<Rightarrow> ret v | None \<Rightarrow> call_user ev rs name args))"

section \<open>\<open>Runtime._eval\<close>\<close>

definition split_where :: "(string \<Rightarrow> nat \<Rightarrow> bool) \<Rightarrow> string \<Rightarrow> string list \<Rightarrow> (string \<times> nat) option" where
  \<comment> \<open>\<open>for op in ops: idx = self._find_binary_op(expr, op); if idx != -1 [and ok]: ...\<close>:
      the first operator of the tuple, in its order, that is found\<close>
  "split_where ok expr ops =
     first_some (\<lambda>op. case find_binary_op expr op of
                        Some idx \<Rightarrow> if ok op idx then Some (op, idx) else None
                      | None \<Rightarrow> None) ops"

definition lhs_of :: "string \<Rightarrow> nat \<Rightarrow> string" where
  "lhs_of expr idx = strip (take idx expr)"

definition rhs_of :: "string \<Rightarrow> string \<Rightarrow> nat \<Rightarrow> string" where
  "rhs_of expr op idx = strip (drop (idx + length op) expr)"

definition eval_lookup :: "(string \<Rightarrow> val comp) \<Rightarrow> string \<Rightarrow> val comp" where
  \<comment> \<open>the tail of \<open>_eval\<close>: subscript chain, dotted access, variable, unknown token\<close>
  "eval_lookup ev expr =
     bnd (if CHR ''['' \<in> set expr \<and> ends_with '']'' expr then eval_subscript_chain ev expr else ret None)
       (\<lambda>r. case r of
          Some v \<Rightarrow> ret v
        | None \<Rightarrow> reading (\<lambda>s.
            if CHR ''.'' \<in> set expr \<and> env s (hd (split_on (CHR ''.'') expr)) \<noteq> None then
              (case env s (hd (split_on (CHR ''.'') expr)) of
                 Some cur \<Rightarrow> resolve_path cur (tl (split_on (CHR ''.'') expr))
               | None \<Rightarrow> ret VNone)
            else case env s expr of
                Some v \<Rightarrow> ret v
              | None \<Rightarrow> ret (VStr expr)))"

definition eval_exponent :: "(string \<Rightarrow> val comp) \<Rightarrow> string \<Rightarrow> val comp" where
  "eval_exponent ev expr =
     (case split_where (\<lambda>_ _. True) expr [''**''] of
        Some (op, idx) \<Rightarrow>
          bnd (ev (lhs_of expr idx)) (\<lambda>lhs.
          bnd (ev (rhs_of expr op idx)) (\<lambda>rhs. py_pow lhs rhs))
      | None \<Rightarrow> eval_lookup ev expr)"

definition eval_multiplicative :: "(string \<Rightarrow> val comp) \<Rightarrow> string \<Rightarrow> val comp" where
  "eval_multiplicative ev expr =
     (case split_where (\<lambda>_ _. True) expr [''*'', ''//'', ''/'', ''%''] of
        Some (op, idx) \<Rightarrow>
          bnd (ev (lhs_of expr idx)) (\<lambda>lhs.
          bnd (ev (rhs_of expr op idx)) (\<lambda>rhs.
            if op = ''*'' then
              (if is_str lhs \<and> is_int rhs then py_mul lhs rhs
               else if is_int lhs \<and> is_str rhs then py_mul rhs lhs
               else py_mul lhs rhs)
            else if op = ''//'' then py_floordiv lhs rhs
            else if op = ''/'' then py_truediv lhs rhs
            else py_mod lhs rhs))
      | None \<Rightarrow> eval_exponent ev expr)"

definition eval_additive :: "(string \<Rightarrow> val comp) \<Rightarrow> string \<Rightarrow> val comp" where
  "eval_additive ev expr =
     (case split_where (\<lambda>op idx. lhs_of expr idx \<noteq> []) expr [''+'', ''-''] of
        Some (op, idx) \<Rightarrow>
          bnd (ev (lhs_of expr idx)) (\<lambda>lhs.
          bnd (ev (rhs_of expr op idx)) (\<lambda>rhs.
            if op = ''+'' then
              (if is_str lhs \<or> is_str rhs then
                 bnd (lift (py_str lhs)) (\<lambda>l. bnd (lift (py_str rhs)) (\<lambda>r. ret (VStr (l @ r))))
               else py_add lhs rhs)
            else py_sub lhs rhs))
      | None \<Rightarrow> eval_multiplicative ev expr)"

definition eval_comparison :: "(string \<Rightarrow> val comp) \<Rightarrow> string \<Rightarrow> val comp" where
  "eval_comparison ev expr =
     (case split_where (\<lambda>_ _. True) expr [''=='', ''!='', ''>='', ''<='', ''>'', ''<''] of
        Some (op, idx) \<Rightarrow>
          bnd (ev (lhs_of expr idx)) (\<lambda>lhs.
          bnd (ev (rhs_of expr op idx)) (\<lambda>rhs. reading (\<lambda>s.
            case compare (heap s) lhs rhs op of
              Inl e \<Rightarrow> raise e
            | Inr b \<Rightarrow> ret (VBool b))))
      | None \<Rightarrow> eval_additive ev expr)"

definition eval_logical :: "(string \<Rightarrow> val comp) \<Rightarrow> string \<Rightarrow> val comp" where
  "eval_logical ev expr =
     (case split_where (\<lambda>_ _. True) expr ['' and '', '' or ''] of
        Some (op_tok, idx) \<Rightarrow>
          bnd (ev (lhs_of expr idx)) (\<lambda>lhs.
          bnd (truthy lhs) (\<lambda>t.
            if op_tok = '' and '' then
              (if \<not> t then ret lhs else ev (rhs_of expr op_tok idx))
            else
              (if t then ret lhs else ev (rhs_of expr op_tok idx))))
      | None \<Rightarrow> eval_comparison ev expr)"

definition eval_ternary :: "(string \<Rightarrow> val comp) \<Rightarrow> string \<Rightarrow> val comp" where
  "eval_ternary ev expr =
     (case find_ternary expr of
        Some (then_e, cond_e, else_e) \<Rightarrow>
          bnd (ev cond_e) (\<lambda>c. bnd (truthy c) (\<lambda>t. if t then ev then_e else ev else_e))
      | None \<Rightarrow> eval_logical ev expr)"

definition eval_call :: "(string \<Rightarrow> val comp) \<Rightarrow> (string \<Rightarrow> val comp) \<Rightarrow> string \<Rightarrow> val comp" where
  \<comment> \<open>a clean call \<open>name(...)\<close> is tried first; when it raises, the exception is dropped and
      the text is evaluated by the branches below\<close>
  "eval_call ev rs expr =
     bnd (if clean_call expr
          then catch_exception (bnd (lift (parse_call expr)) (\<lambda>(name, args). run_call ev rs name args))
          else ret None)
       (\<lambda>r. case r of Some v \<Rightarrow> ret v | None \<Rightarrow> eval_ternary ev expr)"

definition eval_body :: "(string \<Rightarrow> val comp) \<Rightarrow> (string \<Rightarrow> val comp) \<Rightarrow> string \<Rightarrow> val comp" where
  "eval_body ev rs expr0 =
     (let expr = strip expr0 in
      if expr = [] then ret VNone
      else if is_str_literal expr then
        bnd (interpolate ev (unquote expr)) (\<lambda>raw. ret (VStr (unescape raw)))
      else if expr = ''true'' then ret (VBool True)
      else if expr = ''false'' then ret (VBool False)
      else if expr = ''null'' \<or> expr = ''None'' then ret VNone
      else if re_float expr then raise (Unmodelled ''float literal'')
      else if re_int expr then ret (VInt (int_of_str expr))
      else if starts_with ''['' expr \<and> ends_with '']'' expr then
        (let inner = strip (slice_inner expr) in
         if inner = [] then alloc (OList [])
         else bnd (mapM ev (split_by_comma inner)) (\<lambda>vs. alloc (OList vs)))
      else if starts_with ''{'' expr \<and> ends_with ''}'' expr then eval_dict ev expr
      else if starts_with ''('' expr \<and> ends_with '')'' expr then ev (slice_inner expr)
      else if re_kw_space ''not'' expr then
        bnd (ev (strip (drop 4 expr))) (\<lambda>v. bnd (truthy v) (\<lambda>t. ret (VBool (\<not> t))))
      else eval_call ev rs expr)"

section \<open>Block and condition extraction\<close>

fun extract_block_loop ::
  "string \<Rightarrow> nat \<Rightarrow> char option \<Rightarrow> int \<Rightarrow> bool \<Rightarrow> char option \<Rightarrow> nat option"
where
  \<comment> \<open>the index of the brace that closes the first one\<close>
  "extract_block_loop [] i prev depth in_q qchar = None"
| "extract_block_loop (c # cs) i prev depth in_q qchar =
    (if is_quote c then
       (case quote_step prev c (in_q, qchar) of (in_q', qchar') \<Rightarrow>
          extract_block_loop cs (i + 1) (Some c) depth in_q' qchar')
     else if \<not> in_q then
       (if c = CHR ''{'' then extract_block_loop cs (i + 1) (Some c) (depth + 1) in_q qchar
        else if c = CHR ''}'' then
          (if depth - 1 = 0 then Some i
           else extract_block_loop cs (i + 1) (Some c) (depth - 1) in_q qchar)
        else extract_block_loop cs (i + 1) (Some c) depth in_q qchar)
     else extract_block_loop cs (i + 1) (Some c) depth in_q qchar)"

definition extract_block :: "string \<Rightarrow> exn + (string \<times> string)" where
  \<comment> \<open>the message of the first error shows the text without Python's \<open>repr\<close> quoting\<close>
  "extract_block text0 =
     (let text = lstrip text0 in
      if \<not> starts_with ''{'' text then Inl (CherryRuntimeError (''Expected { but got: '' @ take 30 text))
      else case extract_block_loop text 0 None 0 False None of
          Some i \<Rightarrow> Inr (take (i - 1) (drop 1 text), drop (i + 1) text)
        | None \<Rightarrow> Inl (CherryRuntimeError ''Unterminated block''))"

fun extract_condition_loop :: "string \<Rightarrow> nat \<Rightarrow> int \<Rightarrow> bool \<Rightarrow> char option \<Rightarrow> nat option" where
  \<comment> \<open>the index of the parenthesis that closes the first one; this scanner has no escape check\<close>
  "extract_condition_loop [] i depth in_q qchar = None"
| "extract_condition_loop (c # cs) i depth in_q qchar =
    (if is_quote c then
       (if \<not> in_q then extract_condition_loop cs (i + 1) depth True (Some c)
        else if qchar = Some c then extract_condition_loop cs (i + 1) depth False None
        else extract_condition_loop cs (i + 1) depth in_q qchar)
     else if \<not> in_q then
       (if c = CHR ''('' then extract_condition_loop cs (i + 1) (depth + 1) in_q qchar
        else if c = CHR '')'' then
          (if depth - 1 = 0 then Some i
           else extract_condition_loop cs (i + 1) (depth - 1) in_q qchar)
        else extract_condition_loop cs (i + 1) depth in_q qchar)
     else extract_condition_loop cs (i + 1) depth in_q qchar)"

definition extract_condition :: "string \<Rightarrow> exn + (string \<times> string)" where
  "extract_condition text0 =
     (let text = lstrip text0 in
      if starts_with ''('' text then
        (case extract_condition_loop text 0 0 False None of
           Some i \<Rightarrow> Inr (take (i - 1) (drop 1 text), drop (i + 1) text)
         | None \<Rightarrow> Inl (CherryRuntimeError ''Unterminated condition''))
      else case index_of (CHR ''{'') text of
          None \<Rightarrow> Inl (PyExc ValueError)
        | Some brace_idx \<Rightarrow> Inr (strip (take brace_idx text), drop brace_idx text))"

definition run_block :: "(string \<Rightarrow> val comp) \<Rightarrow> string \<Rightarrow> unit comp" where
  "run_block rs body = run_stmts rs (split_statements body)"

section \<open>If chains\<close>

lemma length_lstrip_le: "length (lstrip s) \<le> length s"
  by (simp add: lstrip_def length_dropWhile_le)

lemma length_strip_le: "length (strip s) \<le> length s"
proof -
  have "length (rstrip (lstrip s)) \<le> length (lstrip s)"
    unfolding rstrip_def by (metis length_dropWhile_le length_rev)
  then show ?thesis unfolding strip_def using length_lstrip_le[of s] by linarith
qed

lemma extract_condition_rest_le:
  "extract_condition t = Inr (c, r) \<Longrightarrow> length r \<le> length t"
  using length_lstrip_le[of t]
  by (auto simp: extract_condition_def Let_def split: if_splits option.splits)

lemma extract_block_rest_less:
  "extract_block t = Inr (b, r) \<Longrightarrow> length r < length t"
proof -
  assume a: "extract_block t = Inr (b, r)"
  then have ne: "lstrip t \<noteq> []"
    by (auto simp: extract_block_def Let_def starts_with_def split: if_splits)
  from a obtain i where "r = drop (i + 1) (lstrip t)"
    by (auto simp: extract_block_def Let_def split: if_splits option.splits)
  then have "length r < length (lstrip t)" using ne by (cases "lstrip t") auto
  then show ?thesis using length_lstrip_le[of t] by linarith
qed

lemma run_if_decreases:
  assumes kw: "starts_with ''if'' (strip r0) \<or> starts_with ''else if'' (strip r0)"
    and ec: "extract_condition
               (if starts_with ''else if'' (strip r0)
                then lstrip (drop 7 (strip r0)) else lstrip (drop 2 (strip r0))) = Inr (c, rest)"
    and eb: "extract_block (lstrip rest) = Inr (blk, rest2)"
  shows "length (strip rest2) < length r0"
proof -
  let ?b = "if starts_with ''else if'' (strip r0)
            then lstrip (drop 7 (strip r0)) else lstrip (drop 2 (strip r0))"
  have ne: "strip r0 \<noteq> []" using kw by (auto simp: starts_with_def)
  have "length ?b < length (strip r0)"
    using ne length_lstrip_le[of "drop 7 (strip r0)"] length_lstrip_le[of "drop 2 (strip r0)"]
    by (cases "strip r0") (auto simp: le_imp_less_Suc)
  moreover have "length rest \<le> length ?b"
    using ec by (rule extract_condition_rest_le)
  moreover have "length rest2 < length (lstrip rest)"
    using eb by (rule extract_block_rest_less)
  ultimately show ?thesis
    using length_strip_le[of rest2] length_lstrip_le[of rest] length_strip_le[of r0] by linarith
qed

function run_if_loop :: "(string \<Rightarrow> val comp) \<Rightarrow> (string \<Rightarrow> val comp) \<Rightarrow> string \<Rightarrow> unit comp" where
  \<comment> \<open>the loop \<open>while remainder:\<close> of \<open>_run_if\<close>\<close>
  "run_if_loop ev rs remainder0 s =
     (if remainder0 = [] then (Inr (), s)
      else if starts_with ''if'' (strip remainder0) \<or> starts_with ''else if'' (strip remainder0) then
        (case extract_condition
                (if starts_with ''else if'' (strip remainder0)
                 then lstrip (drop 7 (strip remainder0))
                 else lstrip (drop 2 (strip remainder0))) of
           Inl e \<Rightarrow> (Inl e, s)
         | Inr (cond_str, rest) \<Rightarrow>
             (case extract_block (lstrip rest) of
                Inl e \<Rightarrow> (Inl e, s)
              | Inr (then_block, rest2) \<Rightarrow>
                  (case ev cond_str s of
                     (Inl e, s1) \<Rightarrow> (Inl e, s1)
                   | (Inr c, s1) \<Rightarrow>
                       (case py_truthy (heap s1) c of
                          Inl e \<Rightarrow> (Inl e, s1)
                        | Inr t \<Rightarrow>
                            if t then run_block rs then_block s1
                            else run_if_loop ev rs (strip rest2) s1))))
      else if starts_with ''else'' (strip remainder0) then
        (case extract_block (lstrip (drop 4 (strip remainder0))) of
           Inl e \<Rightarrow> (Inl e, s)
         | Inr (else_block, _) \<Rightarrow> run_block rs else_block s)
      else (Inr (), s))"
  by pat_completeness auto
termination
proof (relation "measure (\<lambda>(ev, rs, remainder, s). length remainder)")
  show "wf (measure (\<lambda>(ev :: string \<Rightarrow> val comp, rs :: string \<Rightarrow> val comp, remainder :: string, s :: state). length remainder))"
    by simp
next
  fix r0 :: string and b x y ba xa ya
  assume "starts_with ''if'' (strip r0) \<or> starts_with ''else if'' (strip r0)"
    and "extract_condition
               (if starts_with ''else if'' (strip r0)
                then lstrip (drop 7 (strip r0)) else lstrip (drop 2 (strip r0))) = Inr b"
    and "(x, y) = b" and "extract_block (lstrip y) = Inr ba" and "(xa, ya) = ba"
  then have "length (strip ya) < length r0"
    using run_if_decreases[of r0 x y xa ya] by auto
  then show "((ev, rs, strip ya, yb), ev, rs, r0, s)
      \<in> measure (\<lambda>(ev, rs, remainder, s). length remainder)"
    for ev rs :: "string \<Rightarrow> val comp" and yb s :: state
    by simp
qed

declare run_if_loop.simps [simp del]

definition run_if :: "(string \<Rightarrow> val comp) \<Rightarrow> (string \<Rightarrow> val comp) \<Rightarrow> string \<Rightarrow> val comp" where
  "run_if ev rs s = bnd (run_if_loop ev rs s) (\<lambda>_. ret VNone)"

section \<open>Loops\<close>


definition loop_guard :: int where
  "loop_guard = 1000000"

function while_loop :: "val comp \<Rightarrow> unit comp \<Rightarrow> int \<Rightarrow> unit comp" where
  \<comment> \<open>the loop of \<open>_run_while\<close>, with the value of \<open>guard\<close> at the start of the iteration\<close>
  "while_loop cond body guard s =
     (case cond s of
        (Inl e, s1) \<Rightarrow> (Inl e, s1)
      | (Inr c, s1) \<Rightarrow>
          (case py_truthy (heap s1) c of
             Inl e \<Rightarrow> (Inl e, s1)
           | Inr t \<Rightarrow>
               if \<not> t then (Inr (), s1)
               else (case body s1 of
                   (Inl BreakSignal, s2) \<Rightarrow> (Inr (), s2)
                 | (Inl ContinueSignal, s2) \<Rightarrow>
                     (if guard - 1 \<le> 0
                      then print_line ''[warn] while loop exceeded iteration limit'' s2
                      else while_loop cond body (guard - 1) s2)
                 | (Inl e, s2) \<Rightarrow> (Inl e, s2)
                 | (Inr _, s2) \<Rightarrow>
                     (if guard - 1 \<le> 0
                      then print_line ''[warn] while loop exceeded iteration limit'' s2
                      else while_loop cond body (guard - 1) s2))))"
  by pat_completeness auto
termination
  by (relation "measure (\<lambda>(cond, body, guard, s). nat guard)") auto

declare while_loop.simps [simp del]

function for_loop :: "val comp option \<Rightarrow> unit comp \<Rightarrow> val comp option \<Rightarrow> int \<Rightarrow> unit comp" where
  \<comment> \<open>the loop of the C-style \<open>for\<close>; \<open>cond\<close> and \<open>post\<close> are absent when their text is empty\<close>
  "for_loop cond body post guard s =
     (case (case cond of
              None \<Rightarrow> (Inr True, s)
            | Some c \<Rightarrow> (case c s of
                  (Inl e, s1) \<Rightarrow> (Inl e, s1)
                | (Inr v, s1) \<Rightarrow> (py_truthy (heap s1) v, s1))) of
        (Inl e, s1) \<Rightarrow> (Inl e, s1)
      | (Inr t, s1) \<Rightarrow>
          if \<not> t then (Inr (), s1)
          else (case (case body s1 of
                        (Inl BreakSignal, s2) \<Rightarrow> (Inr False, s2)
                      | (Inl ContinueSignal, s2) \<Rightarrow> (Inr True, s2)
                      | (Inl e, s2) \<Rightarrow> (Inl e, s2)
                      | (Inr _, s2) \<Rightarrow> (Inr True, s2)) of
              (Inl e, s2) \<Rightarrow> (Inl e, s2)
            | (Inr go_on, s2) \<Rightarrow>
                if \<not> go_on then (Inr (), s2)
                else (case (case post of None \<Rightarrow> (Inr VNone, s2) | Some p \<Rightarrow> p s2) of
                    (Inl e, s3) \<Rightarrow> (Inl e, s3)
                  | (Inr _, s3) \<Rightarrow>
                      if guard - 1 \<le> 0
                      then print_line ''[warn] for loop exceeded iteration limit'' s3
                      else for_loop cond body post (guard - 1) s3)))"
  by pat_completeness auto
termination
  by (relation "measure (\<lambda>(cond, body, post, guard, s). nat guard)") auto

declare for_loop.simps [simp del]

definition run_while :: "(string \<Rightarrow> val comp) \<Rightarrow> (string \<Rightarrow> val comp) \<Rightarrow> string \<Rightarrow> val comp" where
  "run_while ev rs s =
     (case extract_condition (lstrip (drop 5 s)) of
        Inl e \<Rightarrow> raise e
      | Inr (cond_str, rest) \<Rightarrow>
          (case extract_block (lstrip rest) of
             Inl e \<Rightarrow> raise e
           | Inr (body, _) \<Rightarrow>
               bnd (while_loop (ev cond_str) (run_block rs body) loop_guard) (\<lambda>_. ret VNone)))"

definition re_for_in :: "string \<Rightarrow> bool" where
  \<comment> \<open>whether \<open>([a-zA-Z_][a-zA-Z0-9_]*)\s+in\s+(.+?)\s*\{\<close> matches at the start\<close>
  "re_for_in rest = (case ident_prefix rest of
       None \<Rightarrow> False
     | Some (var, r1) \<Rightarrow>
         r1 \<noteq> [] \<and> is_space (hd r1) \<and> starts_with ''in'' (lstrip r1) \<and>
         (let r3 = drop 2 (lstrip r1)
          in r3 \<noteq> [] \<and> is_space (hd r3) \<and> CHR ''{'' \<in> set (drop 2 r3)))"

definition re_for_c :: "string \<Rightarrow> (string \<times> string \<times> string) option" where
  \<comment> \<open>\<open>(.*?);(.*?);(.*?)\s*\{\<close> under \<open>re.S\<close>, the three groups stripped\<close>
  "re_for_c rest =
     (case index_of (CHR '';'') rest of
        None \<Rightarrow> None
      | Some a \<Rightarrow>
          (case index_of (CHR '';'') (drop (a + 1) rest) of
             None \<Rightarrow> None
           | Some b \<Rightarrow>
               (let r = drop (b + 1) (drop (a + 1) rest) in
                case index_of (CHR ''{'') r of
                  None \<Rightarrow> None
                | Some c \<Rightarrow> Some (strip (take a rest), strip (take b (drop (a + 1) rest)), strip (take c r)))))"

definition run_for :: "(string \<Rightarrow> val comp) \<Rightarrow> (string \<Rightarrow> val comp) \<Rightarrow> string \<Rightarrow> val comp" where
  \<comment> \<open>the \<open>for ... in\<close> form is recognised but its iteration is not modelled\<close>
  "run_for ev rs s =
     (let rest = lstrip (drop 3 s) in
      if re_for_in rest then raise (Unmodelled ''for-in loop'')
      else case re_for_c rest of
          None \<Rightarrow> raise (CherryRuntimeError (''Invalid for statement: '' @ s))
        | Some (init_s, cond_s, post_s) \<Rightarrow>
            (case index_of (CHR ''{'') rest of
               None \<Rightarrow> raise (PyExc ValueError)
             | Some brace_start \<Rightarrow>
                 (case extract_block (drop brace_start rest) of
                    Inl e \<Rightarrow> raise e
                  | Inr (body, _) \<Rightarrow>
                      bnd (if init_s \<noteq> [] then rs init_s else ret VNone) (\<lambda>_.
                      bnd (for_loop (if cond_s \<noteq> [] then Some (ev cond_s) else None)
                                    (run_block rs body)
                                    (if post_s \<noteq> [] then Some (rs post_s) else None)
                                    loop_guard) (\<lambda>_. ret VNone)))))"

section \<open>\<open>Runtime._run_stmt\<close>\<close>

definition compound_op :: "string \<Rightarrow> val \<Rightarrow> val \<Rightarrow> val comp" where
  "compound_op op a b =
     (if op = ''+='' then py_add a b
      else if op = ''-='' then py_sub a b
      else if op = ''*='' then py_mul a b
      else if op = ''/='' then py_truediv a b
      else py_mod a b)"

definition fn_params :: "string \<Rightarrow> string list" where
  \<comment> \<open>\<open>[p.strip() for p in params_raw.split(',') if p.strip()]\<close>\<close>
  "fn_params params_raw = filter (\<lambda>p. p \<noteq> []) (map strip (split_on (CHR '','') params_raw))"

definition define_fn :: "string \<Rightarrow> string list \<Rightarrow> string \<Rightarrow> val comp" where
  "define_fn fname params body = (\<lambda>s. (Inr VNone, s\<lparr>fn_table := (fn_table s)(fname \<mapsto> (params, body))\<rparr>))"

definition run_undeploy :: "string \<Rightarrow> val comp" where
  \<comment> \<open>\<open>_run_undeploy\<close> starts with \<open>parse_call(s)\<close>; the call to the deployment controller is not modelled\<close>
  "run_undeploy s = bnd (lift (parse_call s)) (\<lambda>_. raise (Unmodelled ''undeploy statement''))"

definition run_stmt_body :: "(string \<Rightarrow> val comp) \<Rightarrow> (string \<Rightarrow> val comp) \<Rightarrow> string \<Rightarrow> val comp" where
  "run_stmt_body ev rs stmt =
     (let s = strip stmt in
      case re_fn s of
        Some (fname, params_raw, body) \<Rightarrow> define_fn fname (fn_params (strip params_raw)) (strip body)
      | None \<Rightarrow>
        if re_kw_open ''if'' s then run_if ev rs s
        else if re_kw_open ''while'' s then run_while ev rs s
        else if re_kw_space ''for'' s then run_for ev rs s
        else if re_return s then
          (let expr = strip (drop 6 s) in
           bnd (if expr \<noteq> [] then ev expr else ret VNone) (\<lambda>v. raise (ReturnSignal v)))
        else if re_kw_space ''var'' s \<or> re_kw_space ''let'' s then
          (case re_decl s of
             None \<Rightarrow> raise (CherryRuntimeError (''Invalid declaration: '' @ s))
           | Some (name, expr) \<Rightarrow>
               bnd (ev (strip expr)) (\<lambda>v. bnd (set_var name v) (\<lambda>_. ret v)))
        else if starts_with ''undeploy'' s then run_undeploy s
        else case re_compound s of
            Some (name, op, rhs) \<Rightarrow>
              bnd (\<lambda>st. (Inr (case env st name of Some v \<Rightarrow> v | None \<Rightarrow> VInt 0), st)) (\<lambda>cur.
              bnd (ev (strip rhs)) (\<lambda>rval.
              bnd (compound_op op cur rval) (\<lambda>v.
              bnd (set_var name v) (\<lambda>_. ret v))))
          | None \<Rightarrow>
              (case re_assign s of
                 Some (name, expr) \<Rightarrow>
                   if \<not> starts_with (name @ ''=='') (lstrip s) then
                     bnd (ev (strip expr)) (\<lambda>v. bnd (set_var name v) (\<lambda>_. ret v))
                   else if re_call_head s \<noteq> None \<and> ends_with '')'' s then ev s
                   else ev s
               | None \<Rightarrow>
                   if re_call_head s \<noteq> None \<and> ends_with '')'' s then ev s
                   else ev s))"

section \<open>The interpreter, by fuel\<close>

fun Runtime_eval :: "nat \<Rightarrow> string \<Rightarrow> val comp"
  and Runtime_run_stmt :: "nat \<Rightarrow> string \<Rightarrow> val comp"
where
  "Runtime_eval 0 expr = raise OutOfFuel"
| "Runtime_eval (Suc n) expr = eval_body (Runtime_eval n) (Runtime_run_stmt n) expr"
| "Runtime_run_stmt 0 s = raise OutOfFuel"
| "Runtime_run_stmt (Suc n) s = run_stmt_body (Runtime_eval n) (Runtime_run_stmt n) s"

definition exn_name :: "exn \<Rightarrow> string" where
  "exn_name e = (case e of
       ReturnSignal _ \<Rightarrow> ''_ReturnSignal'' | BreakSignal \<Rightarrow> ''_BreakSignal''
     | ContinueSignal \<Rightarrow> ''_ContinueSignal'' | CherryRuntimeError _ \<Rightarrow> ''CherryRuntimeError''
     | ParseError _ \<Rightarrow> ''ParseError''
     | PyExc x \<Rightarrow> (case x of TypeError \<Rightarrow> ''TypeError'' | ValueError \<Rightarrow> ''ValueError''
          | ZeroDivisionError \<Rightarrow> ''ZeroDivisionError'' | IndexError \<Rightarrow> ''IndexError''
          | KeyError \<Rightarrow> ''KeyError'' | RecursionError \<Rightarrow> ''RecursionError'')
     | Unmodelled _ \<Rightarrow> ''Unmodelled'' | OutOfFuel \<Rightarrow> ''OutOfFuel'')"

fun run_top :: "nat \<Rightarrow> string list \<Rightarrow> unit comp" where
  \<comment> \<open>the loop of \<open>Runtime.run\<close>; of a host exception only the class name is printed\<close>
  "run_top n [] st = (Inr (), st)"
| "run_top n (s # ss) st =
     (if strip s = [] then run_top n ss st
      else case Runtime_run_stmt n (strip s) st of
          (Inr _, st1) \<Rightarrow> run_top n ss st1
        | (Inl (ReturnSignal _), st1) \<Rightarrow> run_top n ss st1
        | (Inl (CherryRuntimeError m), st1) \<Rightarrow>
            run_top n ss (snd (print_line (''[error] '' @ m) st1))
        | (Inl e, st1) \<Rightarrow>
            if is_py_exception e
            then run_top n ss (snd (print_line (''[error] '' @ exn_name e) st1))
            else (Inl e, st1))"

definition Runtime_run :: "nat \<Rightarrow> string \<Rightarrow> unit comp" where
  "Runtime_run n src = run_top n (split_statements src)"

definition Runtime_init :: state where
  "Runtime_init = \<lparr>env = Map.empty, fn_table = Map.empty, heap = [], out = []\<rparr>"

section \<open>Evaluating the model\<close>

text \<open>
  The definitions that symbolic evaluation unfolds: those that work on text alone, and all of
  them.  The two iteration bounds and the initial state stay folded.
\<close>

lemmas text_defs =
  is_space_def lstrip_def rstrip_def strip_def is_quote_def is_open_def is_close_def
  re_for_ws_def flush_def split_statements_def starts_with_def ends_with_def slice_inner_def
  quote_step_def split_by_comma_def parse_call_def quoted_by_def is_str_literal_def unquote_def
  ident_prefix_def rest_group_def re_fn_def re_kw_open_def re_kw_space_def re_return_def
  re_decl_def compound_ops_def re_compound_def re_assign_def re_call_head_def re_int_def
  re_float_def find_ternary_def unary_minus_context_def find_binary_op_def clean_call_def
  extract_block_def extract_condition_def re_for_in_def re_for_c_def fn_params_def Let_def

lemmas model_defs =
  text_defs
  ret_def raise_def bnd_def lift_def is_py_exception_def alloc_def lookup_obj_def py_truthy_def
  str_int_def py_str_def is_digit_def is_alpha_us_def is_word_def int_of_digits_def
  int_of_str_def int_like_def num_of_def is_str_def is_int_def is_scalar_def scalar_eq_def
  dict_eq_def ord_holds_def negate_def compare_def truthy_def get_list_def get_dict_def
  str_repeat_def reading_def py_add_def py_sub_def py_mul_def py_floordiv_def py_truediv_def
  py_mod_def py_pow_def py_index_def subscript_def print_line_def set_var_def
  catch_exception_def interpolate_def unescape_def eval_dict_def eval_subscript_chain_def
  arg_or_def py_int_def update_obj_def list_append_def dict_keys_def py_len_def sum_items_def
  resolve_step_def dict_setdefault_def host_method_def dict_get_or_def str_replace_def
  call_method_def bind_params_def call_user_def run_call_def split_where_def lhs_of_def
  rhs_of_def eval_lookup_def eval_exponent_def eval_multiplicative_def eval_additive_def
  eval_comparison_def eval_logical_def eval_ternary_def eval_call_def eval_body_def
  run_block_def run_if_def run_while_def run_for_def compound_op_def define_fn_def
  run_undeploy_def run_stmt_body_def exn_name_def Runtime_run_def

section \<open>Statement splitting on structurally invalid input\<close>





















section \<open>Operator precedence and associativity\<close>

text \<open>
  C1: the logical tier of \<open>_eval\<close> looks for \<open>and\<close> before \<open>or\<close>, so the expression is
  split at \<open>and\<close> first and \<open>and\<close> binds looser than \<open>or\<close>:
  \<open>false and false or true\<close> is evaluated as \<open>false and (false or true)\<close> and yields false,
  where the grouping \<open>(false and false) or true\<close> yields true; likewise
  \<open>true or false and false\<close> yields false.
\<close>

theorem logical_and_binds_looser_than_or:
  "Runtime_eval (Suc (Suc n)) ''false and false or true'' st = (Inr (VBool False), st) \<and>
   Runtime_eval (Suc (Suc (Suc (Suc n)))) ''(false and false) or true'' st = (Inr (VBool True), st) \<and>
   Runtime_eval (Suc (Suc (Suc n))) ''true or false and false'' st = (Inr (VBool False), st)"
  by (simp add: model_defs)

text \<open>
  C2: a chain of equal-precedence operators is not evaluated from left to right.
  \<open>_find_binary_op\<close> returns the first occurrence of an operator of more than one
  character, so \<open>100 // 10 // 2\<close> is \<open>100 // (10 // 2) = 20\<close>; the multiplicative tier
  tries \<open>*\<close> before \<open>%\<close>, so \<open>10 * 3 % 4\<close> is \<open>10 * (3 % 4) = 30\<close>; and the search for
  \<open>*\<close> finds the second star of \<open>**\<close>, so \<open>2 ** 3\<close> raises a TypeError.
  Only operators of one character split at the rightmost occurrence: \<open>10 - 3 - 2\<close> is 5.
\<close>

theorem equal_precedence_chain_not_left_to_right:
  "Runtime_eval (Suc (Suc (Suc n))) ''100 // 10 // 2'' st = (Inr (VInt 20), st) \<and>
   Runtime_eval (Suc (Suc (Suc n))) ''10 * 3 % 4'' st = (Inr (VInt 30), st) \<and>
   Runtime_eval (Suc (Suc (Suc n))) ''2 ** 3'' st = (Inl (PyExc TypeError), st) \<and>
   Runtime_eval (Suc (Suc (Suc n))) ''10 - 3 - 2'' st = (Inr (VInt 5), st)"
  by (simp add: model_defs)

section \<open>String interpolation\<close>

text \<open>
  C8: interpolation is applied to every string literal, whichever quote delimits it.
  With \<open>x\<close> bound to 5, the double-quoted and the single-quoted literal
  \<open>a ${x}\<close> evaluate, like the backtick one, to \<open>a 5\<close>,
  not to the text with \<open>${x}\<close> left verbatim.
\<close>

theorem interpolation_in_every_quote_kind:
  \<open>Runtime_eval (Suc (Suc n)) ''"a ${x}"'' (st\<lparr>env := (env st)(''x'' \<mapsto> VInt 5)\<rparr>)
     = (Inr (VStr ''a 5''), st\<lparr>env := (env st)(''x'' \<mapsto> VInt 5)\<rparr>) \<and>
   Runtime_eval (Suc (Suc n)) (CHR 0x27 # ''a ${x}'' @ [CHR 0x27]) (st\<lparr>env := (env st)(''x'' \<mapsto> VInt 5)\<rparr>)
     = (Inr (VStr ''a 5''), st\<lparr>env := (env st)(''x'' \<mapsto> VInt 5)\<rparr>) \<and>
   Runtime_eval (Suc (Suc n)) ''`a ${x}`'' (st\<lparr>env := (env st)(''x'' \<mapsto> VInt 5)\<rparr>)
     = (Inr (VStr ''a 5''), st\<lparr>env := (env st)(''x'' \<mapsto> VInt 5)\<rparr>)\<close>
  by (simp add: model_defs interp_segments.simps replace_all.simps str_nat.simps)

section \<open>Parameter binding of user-defined functions\<close>

lemma bind_params_other:
  "p \<notin> set (take (length vals) params) \<Longrightarrow> bind_params params vals e p = e p"
proof (induction params arbitrary: vals e)
  case Nil
  then show ?case by (simp add: bind_params_def)
next
  case (Cons q ps)
  show ?case
  proof (cases vals)
    case Nil
    then show ?thesis by (simp add: bind_params_def)
  next
    case (Cons v vs)
    with Cons.prems have pq: "p \<noteq> q" and rest: "p \<notin> set (take (length vs) ps)" by auto
    have "bind_params (q # ps) vals e p = bind_params ps vs (e(q \<mapsto> v)) p"
      using Cons by (simp add: bind_params_def)
    also have "\<dots> = (e(q \<mapsto> v)) p" using Cons.IH[OF rest] .
    finally show ?thesis using pq by simp
  qed
qed

lemma bind_params_bound:
  "distinct params \<Longrightarrow> i < length params \<Longrightarrow> i < length vals \<Longrightarrow>
   bind_params params vals e (params ! i) = Some (vals ! i)"
proof (induction params arbitrary: vals e i)
  case Nil
  then show ?case by simp
next
  case (Cons q ps)
  then obtain v vs where vals: "vals = v # vs" by (cases vals) auto
  have step: "bind_params (q # ps) vals e = bind_params ps vs (e(q \<mapsto> v))"
    using vals by (simp add: bind_params_def)
  show ?case
  proof (cases i)
    case 0
    have "q \<notin> set (take (length vs) ps)" using Cons.prems(1) by (auto dest: in_set_takeD)
    then have "bind_params ps vs (e(q \<mapsto> v)) q = (e(q \<mapsto> v)) q" by (rule bind_params_other)
    then show ?thesis using 0 vals step by simp
  next
    case (Suc j)
    then have "bind_params ps vs (e(q \<mapsto> v)) (ps ! j) = Some (vs ! j)"
      using Cons.prems vals by (intro Cons.IH) auto
    then show ?thesis using Suc vals step by simp
  qed
qed

lemma bind_params_extra:
  "length params \<le> length vals \<Longrightarrow> bind_params params (vals @ extra) e = bind_params params vals e"
  by (simp add: bind_params_def zip_append2)

text \<open>
  C3 (as stated it fails): a parameter without an argument is not bound to Null.  With
  \<open>fn f(a, b) { return b }\<close> the call \<open>f(1)\<close> returns the string \<open>b\<close> (an unbound name
  evaluates to its own text), and after \<open>var b = 7\<close> it returns 7.
\<close>

theorem missing_parameter_is_not_null:
  \<open>(case Runtime_run 10 ''fn f(a, b) { return b }\<newline>var r = f(1)'' Runtime_init of
      (res, st) \<Rightarrow> (res, env st ''r'')) = (Inr (), Some (VStr ''b'')) \<and>
   (case Runtime_run 10 ''fn f(a, b) { return b }\<newline>var b = 7\<newline>var r = f(1)'' Runtime_init of
      (res, st) \<Rightarrow> (res, env st ''r'')) = (Inr (), Some (VInt 7))\<close>
  by code_simp

text \<open>
  C3 (amended): a call to a user-defined function evaluates every argument and binds the
  parameters positionally, pair by pair (\<open>zip\<close>).  A parameter with an argument is bound to
  it; a parameter without an argument is left as it is in the caller's frame for the
  duration of the body, so that the name reads the caller's value, or its own text when the
  caller has none; arguments beyond the parameter list are evaluated and otherwise ignored.
\<close>

theorem user_call_binds_by_zip:
  "(fn_table s name = Some (params, body) \<and> mapM ev args s = (Inr vals, sa) \<longrightarrow>
      call_user ev rs name args s =
        (case run_stmts rs (split_statements body) (sa\<lparr>env := bind_params params vals (env sa)\<rparr>) of
           (Inl (ReturnSignal v), s2) \<Rightarrow> (Inr v, s2\<lparr>env := env sa\<rparr>)
         | (Inl e, s2) \<Rightarrow> (Inl e, s2\<lparr>env := env sa\<rparr>)
         | (Inr _, s2) \<Rightarrow> (Inr VNone, s2\<lparr>env := env sa\<rparr>))) \<and>
   (distinct params \<and> i < length params \<and> i < length vals \<longrightarrow>
      bind_params params vals e (params ! i) = Some (vals ! i)) \<and>
   (p \<notin> set (take (length vals) params) \<longrightarrow> bind_params params vals e p = e p) \<and>
   (length params \<le> length vals \<longrightarrow>
      bind_params params (vals @ extra) e = bind_params params vals e) \<and>
   (fn_table st ''f'' = Some ([''a'', ''b''], ''return b'') \<longrightarrow>
      Runtime_eval (Suc (Suc (Suc (Suc (Suc n))))) ''f(1)'' st =
        (Inr (case env st ''b'' of Some v \<Rightarrow> v | None \<Rightarrow> VStr ''b''), st))"
proof (intro conjI impI)
  assume "fn_table s name = Some (params, body) \<and> mapM ev args s = (Inr vals, sa)"
  then show "call_user ev rs name args s =
        (case run_stmts rs (split_statements body) (sa\<lparr>env := bind_params params vals (env sa)\<rparr>) of
           (Inl (ReturnSignal v), s2) \<Rightarrow> (Inr v, s2\<lparr>env := env sa\<rparr>)
         | (Inl e, s2) \<Rightarrow> (Inl e, s2\<lparr>env := env sa\<rparr>)
         | (Inr _, s2) \<Rightarrow> (Inr VNone, s2\<lparr>env := env sa\<rparr>))"
    by (simp add: call_user_def bnd_def Let_def)
next
  assume "distinct params \<and> i < length params \<and> i < length vals"
  then show "bind_params params vals e (params ! i) = Some (vals ! i)"
    by (simp add: bind_params_bound)
next
  assume "p \<notin> set (take (length vals) params)"
  then show "bind_params params vals e p = e p" by (rule bind_params_other)
next
  assume "length params \<le> length vals"
  then show "bind_params params (vals @ extra) e = bind_params params vals e"
    by (rule bind_params_extra)
next
  assume "fn_table st ''f'' = Some ([''a'', ''b''], ''return b'')"
  then show "Runtime_eval (Suc (Suc (Suc (Suc (Suc n))))) ''f(1)'' st =
        (Inr (case env st ''b'' of Some v \<Rightarrow> v | None \<Rightarrow> VStr ''b''), st)"
    by (simp add: model_defs split: option.splits)
qed

definition c3_state :: state where
  "c3_state = \<lparr>env = Map.empty, fn_table = [''f'' \<mapsto> ([''a'', ''b''], ''return b'')], heap = [], out = []\<rparr>"

theorem user_call_binds_by_zip_witness:
  "call_user (Runtime_eval (Suc (Suc 0))) (Runtime_run_stmt (Suc (Suc (Suc 0)))) ''f'' [''1'', ''2'', ''3''] c3_state
     = (Inr (VInt 2), c3_state) \<and>
   bind_params [''a'', ''b''] [VInt 1] Map.empty (''a'') = Some (VInt 1) \<and>
   bind_params [''a'', ''b''] [VInt 1] Map.empty ''b'' = None \<and>
   bind_params [''a'', ''b''] ([VInt 1, VInt 2] @ [VInt 3]) Map.empty = bind_params [''a'', ''b''] [VInt 1, VInt 2] Map.empty \<and>
   Runtime_eval (Suc (Suc (Suc (Suc (Suc 0))))) ''f(1)'' c3_state = (Inr (VStr ''b''), c3_state)"
proof -
  have h1: "fn_table c3_state ''f'' = Some ([''a'', ''b''], ''return b'') \<and>
        mapM (Runtime_eval (Suc (Suc 0))) [''1'', ''2'', ''3''] c3_state = (Inr [VInt 1, VInt 2, VInt 3], c3_state)"
    by (simp add: c3_state_def model_defs)
  have h2: "distinct [''a'', ''b''] \<and> (0::nat) < length [''a'', ''b''] \<and> (0::nat) < length [VInt 1]"
    by simp
  have h3: "''b'' \<notin> set (take (length [VInt 1]) [''a'', ''b''])" by simp
  have h4: "length [''a'', ''b''] \<le> length [VInt 1, VInt 2]" by simp
  have h5: "fn_table c3_state ''f'' = Some ([''a'', ''b''], ''return b'')"
    by (simp add: c3_state_def)
  have body: "run_stmts (Runtime_run_stmt (Suc (Suc (Suc 0)))) (split_statements ''return b'')
        (c3_state\<lparr>env := bind_params [''a'', ''b''] [VInt 1, VInt 2, VInt 3] (env c3_state)\<rparr>) =
        (Inl (ReturnSignal (VInt 2)), c3_state\<lparr>env := bind_params [''a'', ''b''] [VInt 1, VInt 2, VInt 3] (env c3_state)\<rparr>)"
    by (simp add: c3_state_def model_defs)
  note t = user_call_binds_by_zip
    [where s = c3_state and name = "''f''" and params = "[''a'', ''b'']" and body = "''return b''"
       and ev = "Runtime_eval (Suc (Suc 0))" and rs = "Runtime_run_stmt (Suc (Suc (Suc 0)))"
       and args = "[''1'', ''2'', ''3'']" and sa = c3_state and st = c3_state and n = 0]
  have c1: "call_user (Runtime_eval (Suc (Suc 0))) (Runtime_run_stmt (Suc (Suc (Suc 0)))) ''f'' [''1'', ''2'', ''3''] c3_state
     = (Inr (VInt 2), c3_state)"
    using t[where vals = "[VInt 1, VInt 2, VInt 3]"] h1 body by simp
  have c2: "bind_params [''a'', ''b''] [VInt 1] Map.empty (''a'') = Some (VInt 1)"
    using t[where vals = "[VInt 1]" and i = 0 and e = Map.empty] h2 by simp
  have c3: "bind_params [''a'', ''b''] [VInt 1] Map.empty ''b'' = None"
    using t[where vals = "[VInt 1]" and p = "''b''" and e = Map.empty] h3 by simp
  have c4: "bind_params [''a'', ''b''] ([VInt 1, VInt 2] @ [VInt 3]) Map.empty = bind_params [''a'', ''b''] [VInt 1, VInt 2] Map.empty"
    using t[where vals = "[VInt 1, VInt 2]" and extra = "[VInt 3]" and e = Map.empty] h4 by simp
  have c5: "Runtime_eval (Suc (Suc (Suc (Suc (Suc 0))))) ''f(1)'' c3_state = (Inr (VStr ''b''), c3_state)"
    using t[where vals = "[VInt 1]"] h5 by (simp add: c3_state_def)
  from c1 c2 c3 c4 c5 show ?thesis by simp
qed

section \<open>Containers are shared between the caller and the function body\<close>

text \<open>
  C9: the frame saved at a call is a shallow copy: the names are restored, the objects they
  refer to are not copied.  For every state in which \<open>lst\<close> is bound to a list object with
  items \<open>xs\<close>, the call \<open>push(lst, 2)\<close> of \<open>fn push(l, v) { append(l, v) }\<close> and the call
  \<open>grow()\<close> of \<open>fn grow() { lst.append(3) }\<close> return with every binding as before and with
  the item appended to that same object; and for \<open>cfg\<close> bound to a dict object without the
  key \<open>seen\<close>, the call \<open>mark(cfg)\<close> of \<open>fn mark(d) { d.setdefault("seen", 1) }\<close> leaves the
  new key in the caller's dict.
\<close>

theorem mutation_in_body_visible_to_caller:
  \<open>(fn_table st ''push'' = Some ([''l'', ''v''], ''append(l, v)'') \<and>
    env st ''lst'' = Some (VRef a) \<and> a < length (heap st) \<and> heap st ! a = OList xs \<longrightarrow>
      Runtime_eval (Suc (Suc (Suc (Suc (Suc n))))) ''push(lst, 2)'' st =
        (Inr VNone, st\<lparr>heap := (heap st)[a := OList (xs @ [VInt 2])]\<rparr>)) \<and>
   (fn_table st ''grow'' = Some ([], ''lst.append(3)'') \<and>
    env st ''lst'' = Some (VRef a) \<and> a < length (heap st) \<and> heap st ! a = OList xs \<longrightarrow>
      Runtime_eval (Suc (Suc (Suc (Suc (Suc n))))) ''grow()'' st =
        (Inr VNone, st\<lparr>heap := (heap st)[a := OList (xs @ [VInt 3])]\<rparr>)) \<and>
   (fn_table st ''mark'' = Some ([''d''], ''d.setdefault("seen", 1)'') \<and>
    env st ''cfg'' = Some (VRef a) \<and> a < length (heap st) \<and> heap st ! a = ODict kvs \<and>
    dict_get kvs (VStr ''seen'') = None \<longrightarrow>
      Runtime_eval (Suc (Suc (Suc (Suc (Suc n))))) ''mark(cfg)'' st =
        (Inr VNone, st\<lparr>heap := (heap st)[a := ODict (kvs @ [(VStr ''seen'', VInt 1)])]\<rparr>))\<close>
proof (intro conjI impI)
  assume "fn_table st ''push'' = Some ([''l'', ''v''], ''append(l, v)'') \<and>
    env st ''lst'' = Some (VRef a) \<and> a < length (heap st) \<and> heap st ! a = OList xs"
  then show "Runtime_eval (Suc (Suc (Suc (Suc (Suc n))))) ''push(lst, 2)'' st =
        (Inr VNone, st\<lparr>heap := (heap st)[a := OList (xs @ [VInt 2])]\<rparr>)"
    by (simp add: model_defs)
next
  assume "fn_table st ''grow'' = Some ([], ''lst.append(3)'') \<and>
    env st ''lst'' = Some (VRef a) \<and> a < length (heap st) \<and> heap st ! a = OList xs"
  then show "Runtime_eval (Suc (Suc (Suc (Suc (Suc n))))) ''grow()'' st =
        (Inr VNone, st\<lparr>heap := (heap st)[a := OList (xs @ [VInt 3])]\<rparr>)"
    by (simp add: model_defs)
next
  assume \<open>fn_table st ''mark'' = Some ([''d''], ''d.setdefault("seen", 1)'') \<and>
    env st ''cfg'' = Some (VRef a) \<and> a < length (heap st) \<and> heap st ! a = ODict kvs \<and>
    dict_get kvs (VStr ''seen'') = None\<close>
  then show "Runtime_eval (Suc (Suc (Suc (Suc (Suc n))))) ''mark(cfg)'' st =
        (Inr VNone, st\<lparr>heap := (heap st)[a := ODict (kvs @ [(VStr ''seen'', VInt 1)])]\<rparr>)"
    by (simp add: model_defs interp_segments.simps replace_all.simps)
qed

definition c9_state :: state where
  \<open>c9_state = \<lparr>env = [''lst'' \<mapsto> VRef 0, ''cfg'' \<mapsto> VRef 1],
                fn_table = [''push'' \<mapsto> ([''l'', ''v''], ''append(l, v)''),
                            ''grow'' \<mapsto> ([], ''lst.append(3)''),
                            ''mark'' \<mapsto> ([''d''], ''d.setdefault("seen", 1)'')],
                heap = [OList [VInt 1], ODict []], out = []\<rparr>\<close>

theorem mutation_in_body_visible_to_caller_witness:
  "Runtime_eval (Suc (Suc (Suc (Suc (Suc 0))))) ''push(lst, 2)'' c9_state =
     (Inr VNone, c9_state\<lparr>heap := [OList [VInt 1, VInt 2], ODict []]\<rparr>) \<and>
   Runtime_eval (Suc (Suc (Suc (Suc (Suc 0))))) ''grow()'' c9_state =
     (Inr VNone, c9_state\<lparr>heap := [OList [VInt 1, VInt 3], ODict []]\<rparr>) \<and>
   Runtime_eval (Suc (Suc (Suc (Suc (Suc 0))))) ''mark(cfg)'' c9_state =
     (Inr VNone, c9_state\<lparr>heap := [OList [VInt 1], ODict [(VStr ''seen'', VInt 1)]]\<rparr>)"
proof -
  have h1: "fn_table c9_state ''push'' = Some ([''l'', ''v''], ''append(l, v)'') \<and>
    env c9_state ''lst'' = Some (VRef 0) \<and> 0 < length (heap c9_state) \<and> heap c9_state ! 0 = OList [VInt 1]"
    by (simp add: c9_state_def)
  have h2: "fn_table c9_state ''grow'' = Some ([], ''lst.append(3)'') \<and>
    env c9_state ''lst'' = Some (VRef 0) \<and> 0 < length (heap c9_state) \<and> heap c9_state ! 0 = OList [VInt 1]"
    by (simp add: c9_state_def)
  have h3: \<open>fn_table c9_state ''mark'' = Some ([''d''], ''d.setdefault("seen", 1)'') \<and>
    env c9_state ''cfg'' = Some (VRef 1) \<and> 1 < length (heap c9_state) \<and> heap c9_state ! 1 = ODict [] \<and>
    dict_get [] (VStr ''seen'') = None\<close>
    by (simp add: c9_state_def)
  have c1: "Runtime_eval (Suc (Suc (Suc (Suc (Suc 0))))) ''push(lst, 2)'' c9_state =
     (Inr VNone, c9_state\<lparr>heap := [OList [VInt 1, VInt 2], ODict []]\<rparr>)"
    using mutation_in_body_visible_to_caller[where st = c9_state and a = 0 and xs = "[VInt 1]" and n = 0] h1
    by (simp add: c9_state_def)
  have c2: "Runtime_eval (Suc (Suc (Suc (Suc (Suc 0))))) ''grow()'' c9_state =
     (Inr VNone, c9_state\<lparr>heap := [OList [VInt 1, VInt 3], ODict []]\<rparr>)"
    using mutation_in_body_visible_to_caller[where st = c9_state and a = 0 and xs = "[VInt 1]" and n = 0] h2
    by (simp add: c9_state_def)
  have c3: "Runtime_eval (Suc (Suc (Suc (Suc (Suc 0))))) ''mark(cfg)'' c9_state =
     (Inr VNone, c9_state\<lparr>heap := [OList [VInt 1], ODict [(VStr ''seen'', VInt 1)]]\<rparr>)"
    using mutation_in_body_visible_to_caller[where st = c9_state and a = 1 and kvs = "[]" and n = 0] h3
    by (simp add: c9_state_def)
  from c1 c2 c3 show ?thesis by simp
qed

section \<open>Expression evaluation never changes a binding\<close>

definition keeps_env :: "'a comp \<Rightarrow> bool" where
  "keeps_env m \<longleftrightarrow> (\<forall>s. env (snd (m s)) = env s)"

lemma keeps_envD: "keeps_env m \<Longrightarrow> m s = (r, s') \<Longrightarrow> env s' = env s"
  by (metis keeps_env_def snd_conv)

lemma keeps_env_ret: "keeps_env (ret x)"
  and keeps_env_raise: "keeps_env (raise e)"
  and keeps_env_lift: "keeps_env (lift r)"
  and keeps_env_alloc: "keeps_env (alloc ob)"
  and keeps_env_print_line: "keeps_env (print_line l)"
  and keeps_env_truthy: "keeps_env (truthy v)"
  and keeps_env_update_obj: "keeps_env (update_obj a ob)"
  by (simp_all add: keeps_env_def ret_def raise_def lift_def alloc_def print_line_def truthy_def
        update_obj_def)

lemma keeps_env_bnd:
  assumes "keeps_env m" and "\<And>x. keeps_env (f x)"
  shows "keeps_env (bnd m f)"
  unfolding keeps_env_def
proof
  fix s
  obtain r s' where ms: "m s = (r, s')" by (cases "m s")
  have e: "env s' = env s" using assms(1) ms by (rule keeps_envD)
  show "env (snd (bnd m f s)) = env s"
  proof (cases r)
    case (Inl x)
    then show ?thesis using ms e by (simp add: bnd_def)
  next
    case (Inr x)
    have "env (snd (f x s')) = env s'" using assms(2)[of x] by (simp add: keeps_env_def)
    then show ?thesis using Inr ms e by (simp add: bnd_def)
  qed
qed

lemma keeps_env_reading: "(\<And>s. keeps_env (g s)) \<Longrightarrow> keeps_env (reading g)"
  by (simp add: keeps_env_def reading_def)

lemma keeps_env_catch:
  assumes "keeps_env m"
  shows "keeps_env (catch_exception m)"
  unfolding keeps_env_def
proof
  fix s
  obtain r s' where ms: "m s = (r, s')" by (cases "m s")
  have "env s' = env s" using assms ms by (rule keeps_envD)
  then show "env (snd (catch_exception m s)) = env s"
    using ms by (cases r) (simp_all add: catch_exception_def)
qed

lemma keeps_env_mapM: "(\<And>x. keeps_env (f x)) \<Longrightarrow> keeps_env (mapM f xs)"
  by (induction xs) (auto intro!: keeps_env_bnd keeps_env_ret)

lemma keeps_env_if: "keeps_env a \<Longrightarrow> keeps_env b \<Longrightarrow> keeps_env (if c then a else b)"
  by simp

lemma keeps_env_case_option:
  "keeps_env a \<Longrightarrow> (\<And>y. keeps_env (b y)) \<Longrightarrow> keeps_env (case x of None \<Rightarrow> a | Some y \<Rightarrow> b y)"
  by (cases x) simp_all

lemma keeps_env_case_sum:
  "(\<And>y. keeps_env (a y)) \<Longrightarrow> (\<And>y. keeps_env (b y)) \<Longrightarrow>
   keeps_env (case x of Inl y \<Rightarrow> a y | Inr y \<Rightarrow> b y)"
  by (cases x) simp_all

lemma keeps_env_case_prod:
  "(\<And>y z. keeps_env (f y z)) \<Longrightarrow> keeps_env (case x of (y, z) \<Rightarrow> f y z)"
  by (cases x) simp

lemma keeps_env_case_obj:
  "(\<And>y. keeps_env (a y)) \<Longrightarrow> (\<And>y. keeps_env (b y)) \<Longrightarrow>
   keeps_env (case x of OList y \<Rightarrow> a y | ODict y \<Rightarrow> b y)"
  by (cases x) simp_all

lemma keeps_env_case_val:
  "keeps_env a \<Longrightarrow> (\<And>y. keeps_env (b y)) \<Longrightarrow> (\<And>y. keeps_env (c y)) \<Longrightarrow>
   (\<And>y. keeps_env (d y)) \<Longrightarrow> (\<And>y. keeps_env (e y)) \<Longrightarrow> (\<And>y. keeps_env (f y)) \<Longrightarrow>
   (\<And>y. keeps_env (g y)) \<Longrightarrow>
   keeps_env (case x of VNone \<Rightarrow> a | VBool y \<Rightarrow> b y | VInt y \<Rightarrow> c y | VFloat y \<Rightarrow> d y
                | VStr y \<Rightarrow> e y | VRef y \<Rightarrow> f y | VHandle y \<Rightarrow> g y)"
  by (cases x) simp_all

lemmas keeps_env_cases =
  keeps_env_if keeps_env_case_option keeps_env_case_sum keeps_env_case_prod keeps_env_case_obj
  keeps_env_case_val

lemmas keeps_env_comb = keeps_env_bnd keeps_env_reading keeps_env_catch keeps_env_mapM

lemmas keeps_env_prim =
  keeps_env_ret keeps_env_raise keeps_env_lift keeps_env_alloc keeps_env_print_line
  keeps_env_truthy keeps_env_update_obj

lemma keeps_env_leaf_ops:
  "keeps_env (py_add a b)" "keeps_env (py_sub a b)" "keeps_env (py_mul a b)"
  "keeps_env (py_floordiv a b)" "keeps_env (py_truediv a b)" "keeps_env (py_mod a b)"
  "keeps_env (py_pow a b)" "keeps_env (subscript a b)" "keeps_env (py_int a)"
  "keeps_env (list_append a b)" "keeps_env (dict_keys a)" "keeps_env (py_len a)"
  "keeps_env (resolve_step a attr)" "keeps_env (dict_setdefault i vs)"
  "keeps_env (dict_get_or a b c)" "keeps_env (str_replace a b c)"
  unfolding py_add_def py_sub_def py_mul_def py_floordiv_def py_truediv_def
        py_mod_def py_pow_def subscript_def py_int_def list_append_def dict_keys_def py_len_def
        resolve_step_def dict_setdefault_def dict_get_or_def str_replace_def
  by (intro keeps_env_cases keeps_env_comb keeps_env_prim)+

lemmas keeps_env_basic = keeps_env_prim keeps_env_leaf_ops

lemma keeps_env_py_sum: "keeps_env (py_sum acc xs)"
proof (induction xs arbitrary: acc)
  case Nil
  show ?case by (simp add: keeps_env_ret)
next
  case (Cons x xs)
  show ?case by (simp add: keeps_env_bnd keeps_env_leaf_ops Cons)
qed

lemma keeps_env_resolve_path: "keeps_env (resolve_path ob attrs)"
proof (induction attrs arbitrary: ob)
  case Nil
  show ?case by (simp add: keeps_env_ret)
next
  case (Cons x xs)
  show ?case by (simp add: keeps_env_bnd keeps_env_leaf_ops Cons)
qed

lemma keeps_env_sum_items: "keeps_env (sum_items v)"
  unfolding sum_items_def
  by (intro keeps_env_cases keeps_env_comb keeps_env_prim keeps_env_py_sum)+

lemma keeps_env_arg_or:
  assumes ev: "\<And>e. keeps_env (ev e)"
  shows "keeps_env (arg_or ev args i d)"
  by (simp add: arg_or_def keeps_env_ret ev)

lemma keeps_env_dict_pairs:
  assumes ev: "\<And>e. keeps_env (ev e)"
  shows "keeps_env (dict_pairs ev ps acc)"
proof (induction ps arbitrary: acc)
  case Nil
  show ?case by (simp add: keeps_env_ret)
next
  case (Cons p ps)
  show ?case
    unfolding dict_pairs.simps
    by (intro keeps_env_cases keeps_env_comb keeps_env_prim ev Cons)+
qed

lemma keeps_env_eval_dict:
  assumes ev: "\<And>e. keeps_env (ev e)"
  shows "keeps_env (eval_dict ev expr)"
  unfolding eval_dict_def Let_def
  by (intro keeps_env_cases keeps_env_comb keeps_env_basic ev keeps_env_dict_pairs)+

lemma keeps_env_interpolate:
  assumes ev: "\<And>e. keeps_env (ev e)"
  shows "keeps_env (interpolate ev raw)"
  unfolding interpolate_def
  by (intro keeps_env_cases keeps_env_comb keeps_env_basic ev )+

lemma keeps_env_subscript_chain:
  assumes ev: "\<And>e. keeps_env (ev e)"
  shows "keeps_env (eval_subscript_chain ev expr)"
  unfolding eval_subscript_chain_def Let_def
  by (intro keeps_env_cases keeps_env_comb keeps_env_basic ev )+

lemma keeps_env_host_method:
  assumes ev: "\<And>e. keeps_env (ev e)"
  shows "keeps_env (host_method ev ob method args)"
proof (cases "ob = VNone")
  case True
  then show ?thesis by (simp add: host_method_def keeps_env_ret)
next
  case False
  have inner: "keeps_env (case lookup_obj (heap s) a of
             Inl e \<Rightarrow> raise e
           | Inr target \<Rightarrow>
               if method = ''clear'' then
                 bnd (mapM ev args) (\<lambda>vs.
                   if vs \<noteq> [] then raise (PyExc TypeError)
                   else bnd (update_obj a (case target of OList _ \<Rightarrow> OList [] | ODict _ \<Rightarrow> ODict []))
                            (\<lambda>_. ret (Some VNone)))
               else if method = ''setdefault'' \<and> (case target of ODict _ \<Rightarrow> True | _ \<Rightarrow> False) then
                 bnd (mapM ev args) (dict_setdefault a)
               else raise (Unmodelled ''host method''))" for s a
  proof (cases "lookup_obj (heap s) a")
    case (Inl e)
    then show ?thesis by (simp add: keeps_env_raise)
  next
    case (Inr target)
    have m: "keeps_env (mapM ev args)" using ev by (rule keeps_env_mapM)
    have c: "keeps_env (bnd (mapM ev args) (\<lambda>vs.
                   if vs \<noteq> [] then raise (PyExc TypeError)
                   else bnd (update_obj a (case target of OList _ \<Rightarrow> OList [] | ODict _ \<Rightarrow> ODict []))
                            (\<lambda>_. ret (Some VNone))))"
      by (intro keeps_env_bnd m) (simp add: keeps_env_raise keeps_env_bnd keeps_env_update_obj keeps_env_ret)
    have d: "keeps_env (bnd (mapM ev args) (dict_setdefault a))"
      by (intro keeps_env_bnd m keeps_env_leaf_ops)
    show ?thesis using Inr c d by (simp add: keeps_env_raise)
  qed
  show ?thesis
    unfolding host_method_def using False
    by (cases ob) (simp_all add: keeps_env_reading keeps_env_raise inner)
qed

lemma keeps_env_call_method:
  assumes ev: "\<And>e. keeps_env (ev e)"
  shows "keeps_env (call_method ev name args)"
  unfolding call_method_def Let_def
  by (intro keeps_env_cases keeps_env_comb keeps_env_basic ev keeps_env_resolve_path keeps_env_arg_or keeps_env_host_method)+

lemma keeps_env_call_user:
  assumes "\<And>e. keeps_env (ev e)"
  shows "keeps_env (call_user ev rs name args)"
  unfolding keeps_env_def
proof
  fix s
  show "env (snd (call_user ev rs name args s)) = env s"
  proof (cases "fn_table s name")
    case None
    then show ?thesis by (simp add: call_user_def bnd_def print_line_def ret_def)
  next
    case (Some fn)
    obtain params body where fn: "fn = (params, body)" by (cases fn)
    obtain r sa where m: "mapM ev args s = (r, sa)" by (cases "mapM ev args s")
    have e: "env sa = env s" using keeps_env_mapM[of ev args] assms m by (auto dest: keeps_envD)
    show ?thesis
    proof (cases r)
      case (Inl x)
      then show ?thesis using Some fn m e by (simp add: call_user_def bnd_def)
    next
      case (Inr vals)
      then show ?thesis using Some fn m e
        by (auto simp: call_user_def bnd_def Let_def split: prod.splits sum.splits exn.splits)
    qed
  qed
qed

lemma keeps_env_run_call:
  assumes ev: "\<And>e. keeps_env (ev e)"
  shows "keeps_env (run_call ev rs name args)"
  unfolding run_call_def
  by (intro keeps_env_cases keeps_env_comb keeps_env_basic ev keeps_env_arg_or keeps_env_sum_items keeps_env_call_method keeps_env_call_user)+

lemma keeps_env_eval_lookup:
  assumes ev: "\<And>e. keeps_env (ev e)"
  shows "keeps_env (eval_lookup ev expr)"
  unfolding eval_lookup_def
  by (intro keeps_env_cases keeps_env_comb keeps_env_basic ev keeps_env_subscript_chain keeps_env_resolve_path)+

lemma keeps_env_eval_exponent:
  assumes ev: "\<And>e. keeps_env (ev e)"
  shows "keeps_env (eval_exponent ev expr)"
  unfolding eval_exponent_def
  by (intro keeps_env_cases keeps_env_comb keeps_env_basic ev keeps_env_eval_lookup)+

lemma keeps_env_eval_multiplicative:
  assumes ev: "\<And>e. keeps_env (ev e)"
  shows "keeps_env (eval_multiplicative ev expr)"
  unfolding eval_multiplicative_def
  by (intro keeps_env_cases keeps_env_comb keeps_env_basic ev keeps_env_eval_exponent)+

lemma keeps_env_eval_additive:
  assumes ev: "\<And>e. keeps_env (ev e)"
  shows "keeps_env (eval_additive ev expr)"
  unfolding eval_additive_def
  by (intro keeps_env_cases keeps_env_comb keeps_env_basic ev keeps_env_eval_multiplicative)+

lemma keeps_env_eval_comparison:
  assumes ev: "\<And>e. keeps_env (ev e)"
  shows "keeps_env (eval_comparison ev expr)"
  unfolding eval_comparison_def
  by (intro keeps_env_cases keeps_env_comb keeps_env_basic ev keeps_env_eval_additive)+

lemma keeps_env_eval_logical:
  assumes ev: "\<And>e. keeps_env (ev e)"
  shows "keeps_env (eval_logical ev expr)"
  unfolding eval_logical_def
  by (intro keeps_env_cases keeps_env_comb keeps_env_basic ev keeps_env_eval_comparison)+

lemma keeps_env_eval_ternary:
  assumes ev: "\<And>e. keeps_env (ev e)"
  shows "keeps_env (eval_ternary ev expr)"
  unfolding eval_ternary_def
  by (intro keeps_env_cases keeps_env_comb keeps_env_basic ev keeps_env_eval_logical)+

lemma keeps_env_eval_call:
  assumes ev: "\<And>e. keeps_env (ev e)"
  shows "keeps_env (eval_call ev rs expr)"
  unfolding eval_call_def
  by (intro keeps_env_cases keeps_env_comb keeps_env_basic ev keeps_env_run_call keeps_env_eval_ternary)+

lemma keeps_env_eval_body:
  assumes ev: "\<And>e. keeps_env (ev e)"
  shows "keeps_env (eval_body ev rs expr)"
  unfolding eval_body_def Let_def
  by (intro keeps_env_cases keeps_env_comb keeps_env_basic ev keeps_env_interpolate keeps_env_eval_dict keeps_env_eval_call)+

lemma keeps_env_Runtime_eval: "keeps_env (Runtime_eval n expr)"
proof (induction n arbitrary: expr)
  case 0
  show ?case by (simp add: keeps_env_raise)
next
  case (Suc n)
  show ?case by (simp add: keeps_env_eval_body Suc)
qed

text \<open>
  C5: a call of a user-defined function leaves the bindings of the frame exactly as they
  were at the call, however the body ends (normally, by \<open>return\<close>, or by an error): the
  parameters and every variable the body binds or rebinds are gone.  The same holds for
  every call the dispatcher handles and for the evaluation of any expression, so the
  arguments of a call cannot change a binding either.
\<close>

theorem call_restores_bindings:
  "env (snd (call_user (Runtime_eval n) (Runtime_run_stmt n) name args st)) = env st \<and>
   env (snd (run_call (Runtime_eval n) (Runtime_run_stmt n) name args st)) = env st \<and>
   env (snd (Runtime_eval n expr st)) = env st"
proof -
  have ev: "\<And>e. keeps_env (Runtime_eval n e)" by (rule keeps_env_Runtime_eval)
  have "keeps_env (call_user (Runtime_eval n) (Runtime_run_stmt n) name args)"
    using ev by (rule keeps_env_call_user)
  moreover have "keeps_env (run_call (Runtime_eval n) (Runtime_run_stmt n) name args)"
    using ev by (rule keeps_env_run_call)
  ultimately show ?thesis using ev[of expr] by (simp add: keeps_env_def)
qed

definition c5_state :: state where
  "c5_state = \<lparr>env = [''x'' \<mapsto> VInt 100],
                fn_table = [''foo'' \<mapsto> ([''x''], ''return x + 1''),
                            ''bar'' \<mapsto> ([''p''], ''var y = p; x = y * 2'')],
                heap = [], out = []\<rparr>"

theorem call_restores_bindings_witness:
  "Runtime_eval (Suc (Suc (Suc (Suc (Suc (Suc 0)))))) ''foo(3)'' c5_state = (Inr (VInt 4), c5_state) \<and>
   env (snd (Runtime_eval (Suc (Suc (Suc (Suc (Suc (Suc 0)))))) ''foo(3)'' c5_state)) ''x'' = Some (VInt 100) \<and>
   env (snd (Runtime_eval (Suc (Suc (Suc (Suc (Suc (Suc 0)))))) ''bar(4)'' c5_state)) = env c5_state \<and>
   env (snd (Runtime_eval (Suc (Suc (Suc (Suc (Suc (Suc 0)))))) ''bar(4)'' c5_state)) ''y'' = None"
proof -
  note t = call_restores_bindings[where n = "Suc (Suc (Suc (Suc (Suc (Suc 0)))))" and st = c5_state]
  have v: "Runtime_eval (Suc (Suc (Suc (Suc (Suc (Suc 0)))))) ''foo(3)'' c5_state = (Inr (VInt 4), c5_state)"
    by (simp add: c5_state_def model_defs)
  have x: "env c5_state ''x'' = Some (VInt 100)" "env c5_state ''y'' = None"
    by (simp_all add: c5_state_def)
  have a: "env (snd (Runtime_eval (Suc (Suc (Suc (Suc (Suc (Suc 0)))))) ''foo(3)'' c5_state)) = env c5_state"
    using t[where expr = "''foo(3)''"] by simp
  have b: "env (snd (Runtime_eval (Suc (Suc (Suc (Suc (Suc (Suc 0)))))) ''bar(4)'' c5_state)) = env c5_state"
    using t[where expr = "''bar(4)''"] by simp
  show ?thesis using v a b x by simp
qed

section \<open>The iteration guard of loops\<close>
















section \<open>A comparison written as a statement\<close>

definition is_identifier :: "string \<Rightarrow> bool" where
  "is_identifier name \<longleftrightarrow> name \<noteq> [] \<and> is_alpha_us (hd name) \<and> list_all is_word (tl name)"

definition keyword_led :: "string \<Rightarrow> bool" where
  \<comment> \<open>the names that \<open>_run_stmt\<close> takes for the start of another statement form\<close>
  "keyword_led name \<longleftrightarrow>
     name \<in> {''if'', ''while'', ''for'', ''return'', ''var'', ''let''} \<or>
     starts_with ''undeploy'' name"

lemma word_not_space: "is_word c \<Longrightarrow> \<not> is_space c"
  by (auto simp: is_word_def is_alpha_us_def is_digit_def is_space_def)

lemma identifier_words: "is_identifier name \<Longrightarrow> list_all is_word name"
  by (cases name) (auto simp: is_identifier_def is_word_def)

lemma starts_with_identifier:
  assumes nm: "list_all is_word name" and kw: "list_all is_word kw" and d: "\<not> is_word d"
  shows "starts_with kw (name @ d # rest) \<longleftrightarrow> starts_with kw name"
proof (cases "length kw \<le> length name")
  case True
  then show ?thesis by (simp add: starts_with_def)
next
  case False
  then have lt: "length name < length kw" by simp
  have r: "\<not> starts_with kw name"
    using lt by (auto simp: starts_with_def dest: arg_cong[of _ _ length])
  have "\<not> starts_with kw (name @ d # rest)"
  proof
    assume "starts_with kw (name @ d # rest)"
    then have "take (length kw) (name @ d # rest) = kw" by (simp add: starts_with_def)
    then have "kw ! length name = take (length kw) (name @ d # rest) ! length name" by simp
    also have "\<dots> = d" using lt by (simp add: nth_append)
    finally have "kw ! length name = d" .
    moreover have "is_word (kw ! length name)" using kw lt by (simp add: list_all_length)
    ultimately show False using d by simp
  qed
  with r show ?thesis by simp
qed

lemma after_keyword:
  assumes nm: "list_all is_word name" and sw: "starts_with kw name" and ne: "name \<noteq> kw"
  shows "drop (length kw) (name @ r) \<noteq> [] \<and> is_word (hd (drop (length kw) (name @ r)))"
proof -
  from sw have tk: "take (length kw) name = kw" by (simp add: starts_with_def)
  have "length (take (length kw) name) = length kw" by (simp only: tk)
  then have le: "length kw \<le> length name" by simp
  have "length kw \<noteq> length name"
  proof
    assume "length kw = length name"
    then have "take (length kw) name = name" by simp
    with tk ne show False by simp
  qed
  with le have lt: "length kw < length name" by simp
  then have d: "drop (length kw) (name @ r) = drop (length kw) name @ r" by simp
  have nz: "drop (length kw) name \<noteq> []" using lt by simp
  have "hd (drop (length kw) name) = name ! length kw" using lt by (simp add: hd_drop_conv_nth)
  moreover have "is_word (name ! length kw)" using nm lt by (simp add: list_all_length)
  ultimately show ?thesis using d nz by simp
qed

lemma lstrip_word_head: "s \<noteq> [] \<Longrightarrow> is_word (hd s) \<Longrightarrow> lstrip s = s"
  by (cases s) (auto simp: lstrip_def word_not_space)

lemma re_fn_none:
  "\<not> (starts_with ''fn'' s \<and> is_space (hd (drop 2 s))) \<Longrightarrow> re_fn s = None"
  by (auto simp: re_fn_def)

lemma re_return_none:
  "\<not> (starts_with ''return'' s \<and> (drop 6 s = [] \<or> \<not> is_word (hd (drop 6 s)))) \<Longrightarrow> \<not> re_return s"
  by (auto simp: re_return_def)

lemma re_kw_open_none:
  "\<not> (starts_with kw s \<and> (is_space (hd (drop (length kw) s)) \<or>
        hd (lstrip (drop (length kw) s)) = CHR ''('')) \<Longrightarrow> \<not> re_kw_open kw s"
  unfolding re_kw_open_def Let_def by blast

lemma re_kw_space_none:
  "\<not> (starts_with kw s \<and> is_space (hd (drop (length kw) s))) \<Longrightarrow> \<not> re_kw_space kw s"
  unfolding re_kw_space_def by blast

lemma not_keyword:
  assumes nm: "list_all is_word name" and d: "\<not> is_word d"
    and kw: "list_all is_word kw" and nkw: "name \<noteq> kw" and k: "k = length kw"
  shows "\<not> (starts_with kw (name @ d # rest) \<and>
            (drop k (name @ d # rest) = [] \<or>
             is_space (hd (drop k (name @ d # rest))) \<or>
             \<not> is_word (hd (drop k (name @ d # rest))) \<or>
             hd (lstrip (drop k (name @ d # rest))) = CHR ''(''))"
proof (cases "starts_with kw name")
  case False
  then show ?thesis using starts_with_identifier[OF nm kw d] by blast
next
  case True
  have paren: "\<not> is_word (CHR ''('')" by (simp add: is_word_def is_alpha_us_def is_digit_def)
  from after_keyword[OF nm True nkw, of "d # rest"]
  have a: "drop k (name @ d # rest) \<noteq> []"
    and b: "is_word (hd (drop k (name @ d # rest)))" unfolding k by blast+
  have "lstrip (drop k (name @ d # rest)) = drop k (name @ d # rest)"
    using a b by (rule lstrip_word_head)
  moreover have "hd (drop k (name @ d # rest)) \<noteq> CHR ''(''" using b paren by metis
  moreover have "\<not> is_space (hd (drop k (name @ d # rest)))" using b by (rule word_not_space)
  ultimately show ?thesis using a b by metis
qed

lemma no_other_statement_form:
  assumes id: "is_identifier name" and nk: "\<not> keyword_led name" and d: "\<not> is_word d"
  shows "\<not> re_kw_open ''if'' (name @ d # rest)"
    and "\<not> re_kw_open ''while'' (name @ d # rest)"
    and "\<not> re_kw_space ''for'' (name @ d # rest)"
    and "\<not> re_return (name @ d # rest)"
    and "\<not> re_kw_space ''var'' (name @ d # rest)"
    and "\<not> re_kw_space ''let'' (name @ d # rest)"
    and "\<not> starts_with ''undeploy'' (name @ d # rest)"
proof -
  have nm: "list_all is_word name" using id by (rule identifier_words)
  have kws: "list_all is_word ''if''" "list_all is_word ''while''"
    "list_all is_word ''for''" "list_all is_word ''return''" "list_all is_word ''var''"
    "list_all is_word ''let''" "list_all is_word ''undeploy''"
    by (simp_all add: is_word_def is_alpha_us_def is_digit_def)
  have ne: "name \<noteq> ''if''" "name \<noteq> ''while''" "name \<noteq> ''for''"
    "name \<noteq> ''return''" "name \<noteq> ''var''" "name \<noteq> ''let''" "\<not> starts_with ''undeploy'' name"
    using nk by (simp_all add: keyword_led_def)
  have k6: "(6::nat) = length ''return''" by simp
  show "\<not> re_kw_open ''if'' (name @ d # rest)"
    using not_keyword[OF nm d kws(1) ne(1) refl, of rest] by (intro re_kw_open_none) blast
  show "\<not> re_kw_open ''while'' (name @ d # rest)"
    using not_keyword[OF nm d kws(2) ne(2) refl, of rest] by (intro re_kw_open_none) blast
  show "\<not> re_kw_space ''for'' (name @ d # rest)"
    using not_keyword[OF nm d kws(3) ne(3) refl, of rest] by (intro re_kw_space_none) blast
  show "\<not> re_return (name @ d # rest)"
    using not_keyword[OF nm d kws(4) ne(4) k6, of rest] by (intro re_return_none) blast
  show "\<not> re_kw_space ''var'' (name @ d # rest)"
    using not_keyword[OF nm d kws(5) ne(5) refl, of rest] by (intro re_kw_space_none) blast
  show "\<not> re_kw_space ''let'' (name @ d # rest)"
    using not_keyword[OF nm d kws(6) ne(6) refl, of rest] by (intro re_kw_space_none) blast
  show "\<not> starts_with ''undeploy'' (name @ d # rest)"
    using starts_with_identifier[OF nm kws(7) d] ne(7) by blast
qed

lemma ident_prefix_identifier:
  assumes id: "is_identifier name" and d: "\<not> is_word d"
  shows "ident_prefix (name @ d # rest) = Some (name, d # rest)"
proof -
  obtain c cs where n: "name = c # cs" using id by (cases name) (auto simp: is_identifier_def)
  have a: "is_alpha_us c" and w: "\<forall>x\<in>set cs. is_word x"
    using id n by (auto simp: is_identifier_def list_all_iff)
  have "takeWhile is_word (cs @ d # rest) = cs" "dropWhile is_word (cs @ d # rest) = d # rest"
    using w d by (simp_all add: takeWhile_append2 dropWhile_append2)
  then show ?thesis using n a by (simp add: ident_prefix_def)
qed

lemma eq_char_facts:
  "\<not> is_word (CHR ''='')" "\<not> is_space (CHR ''='')"
  by (simp_all add: is_word_def is_alpha_us_def is_digit_def is_space_def)

lemma lstrip_spaces: "list_all is_space ws \<Longrightarrow> \<not> is_space c \<Longrightarrow> lstrip (ws @ c # r) = c # r"
  by (simp add: lstrip_def dropWhile_append2 list_all_iff)

lemma re_fn_comparison:
  assumes id: "is_identifier name" and ws: "list_all is_space ws"
  shows "re_fn (name @ ws @ ''=='' @ e) = None"
proof (cases "name = ''fn''")
  case True
  have ls: "lstrip (ws @ ''=='' @ e) = ''=='' @ e"
    using lstrip_spaces[OF ws eq_char_facts(2), of "''='' @ e"] by simp
  have ip: "ident_prefix (''=='' @ e) = None"
    by (simp add: ident_prefix_def is_alpha_us_def)
  show ?thesis unfolding True using ls ip by (simp add: re_fn_def)
next
  case False
  have nm: "list_all is_word name" using id by (rule identifier_words)
  have kw: "list_all is_word ''fn''" by (simp add: is_word_def is_alpha_us_def is_digit_def)
  have k2: "(2::nat) = length ''fn''" by simp
  show ?thesis
  proof (cases ws)
    case Nil
    show ?thesis
      using not_keyword[OF nm eq_char_facts(1) kw False k2, of "''='' @ e"]
      unfolding Nil by (intro re_fn_none) simp
  next
    case (Cons w wr)
    have "is_space w" using ws Cons by simp
    then have wd: "\<not> is_word w" using word_not_space by blast
    show ?thesis
      using not_keyword[OF nm wd kw False k2, of "wr @ ''=='' @ e"]
      unfolding Cons by (intro re_fn_none) simp
  qed
qed

lemma strip_clean:
  assumes "s \<noteq> []" and "\<not> is_space (hd s)" and "\<not> is_space (last s)"
  shows "strip s = s"
proof -
  have l: "lstrip s = s" using assms(1,2) by (cases s) (auto simp: lstrip_def)
  have "dropWhile is_space (rev s) = rev s"
    using assms(1,3) by (cases s rule: rev_cases) simp_all
  then have "rstrip s = s" by (simp add: rstrip_def)
  with l show ?thesis by (simp add: strip_def)
qed

lemma spaced_comparison_is_assignment:
  assumes id: "is_identifier name" and nk: "\<not> keyword_led name"
    and ws: "ws \<noteq> []" "list_all is_space ws"
    and e: "e = [] \<or> \<not> is_space (last e)"
  shows "run_stmt_body ev rs (name @ ws @ ''=='' @ e) =
           bnd (ev (''='' @ e)) (\<lambda>v. bnd (set_var name v) (\<lambda>_. ret v))"
proof -
  let ?s = "name @ ws @ ''=='' @ e"
  obtain w wr where w: "ws = w # wr" using ws(1) by (cases ws) auto
  have wsp: "is_space w" using ws(2) w by simp
  have wd: "\<not> is_word w" using wsp word_not_space by blast
  have form: "name @ w # (wr @ ''=='' @ e) = ?s" using w by simp
  have hw: "is_word (hd name)" using id by (simp add: is_identifier_def is_word_def)
  have nm: "name \<noteq> []" using id by (simp add: is_identifier_def)
  have hs: "\<not> is_space (hd name)" using hw by (rule word_not_space)
  have last_s: "\<not> is_space (last ?s)" using e eq_char_facts(2) by auto
  have hd_s: "hd ?s = hd name" using nm by simp
  have strip_s: "strip ?s = ?s"
  proof (rule strip_clean)
    show "?s \<noteq> []" using nm by simp
    show "\<not> is_space (hd ?s)" using hs unfolding hd_s .
    show "\<not> is_space (last ?s)" by (rule last_s)
  qed
  have lstrip_s: "lstrip ?s = ?s" using nm hs by (cases name) (simp_all add: lstrip_def)
  note no = no_other_statement_form[OF id nk wd, of "wr @ ''=='' @ e", unfolded form]
  have fn: "re_fn ?s = None" using id ws(2) by (rule re_fn_comparison)
  have ip: "ident_prefix ?s = Some (name, ws @ ''=='' @ e)"
    using ident_prefix_identifier[OF id wd, of "wr @ ''=='' @ e"] w by simp
  have ls: "lstrip (ws @ ''=='' @ e) = ''=='' @ e"
    using lstrip_spaces[OF ws(2) eq_char_facts(2), of "''='' @ e"] by simp
  have comp: "re_compound ?s = None"
    using ip ls by (simp add: re_compound_def compound_ops_def Let_def)
  have rg: "rest_group (''='' @ e) = Some (''='' @ e)"
    using eq_char_facts(2) by (simp add: rest_group_def lstrip_def)
  have asg: "re_assign ?s = Some (name, ''='' @ e)"
    using rg ip ls by (simp add: re_assign_def)
  have nsw: "\<not> starts_with (name @ ''=='') ?s"
    using w wsp eq_char_facts(2) by (auto simp: starts_with_def)
  have se: "strip (''='' @ e) = ''='' @ e"
  proof (rule strip_clean)
    show "''='' @ e \<noteq> []" by simp
    show "\<not> is_space (hd (''='' @ e))" using eq_char_facts(2) by simp
    show "\<not> is_space (last (''='' @ e))" using e eq_char_facts(2) by auto
  qed
  show ?thesis
    unfolding run_stmt_body_def Let_def strip_s lstrip_s
    by (simp only: fn no comp asg nsw se option.case prod.case if_False if_True simp_thms)
qed

lemma unspaced_comparison_is_expression:
  assumes id: "is_identifier name" and nk: "\<not> keyword_led name"
    and e: "e = [] \<or> \<not> is_space (last e)"
  shows "run_stmt_body ev rs (name @ ''=='' @ e) = ev (name @ ''=='' @ e)"
proof -
  let ?s = "name @ ''=='' @ e"
  have form: "name @ CHR ''='' # (''='' @ e) = ?s" by simp
  have hw: "is_word (hd name)" using id by (simp add: is_identifier_def is_word_def)
  have nm: "name \<noteq> []" using id by (simp add: is_identifier_def)
  have hs: "\<not> is_space (hd name)" using hw by (rule word_not_space)
  have last_s: "\<not> is_space (last ?s)" using e eq_char_facts(2) by auto
  have hd_s: "hd ?s = hd name" using nm by simp
  have strip_s: "strip ?s = ?s"
  proof (rule strip_clean)
    show "?s \<noteq> []" using nm by simp
    show "\<not> is_space (hd ?s)" using hs unfolding hd_s .
    show "\<not> is_space (last ?s)" by (rule last_s)
  qed
  have lstrip_s: "lstrip ?s = ?s" using nm hs by (cases name) (simp_all add: lstrip_def)
  note no = no_other_statement_form[OF id nk eq_char_facts(1), of "''='' @ e", unfolded form]
  have fn: "re_fn ?s = None"
    using re_fn_comparison[OF id, of "[]" e] by simp
  have ip: "ident_prefix ?s = Some (name, ''=='' @ e)"
    using ident_prefix_identifier[OF id eq_char_facts(1), of "''='' @ e"] by simp
  have ls: "lstrip (''=='' @ e) = ''=='' @ e"
    using eq_char_facts(2) by (simp add: lstrip_def)
  have comp: "re_compound ?s = None"
    using ip ls by (simp add: re_compound_def compound_ops_def Let_def)
  have rg: "rest_group (''='' @ e) = Some (''='' @ e)"
    using eq_char_facts(2) by (simp add: rest_group_def lstrip_def)
  have asg: "re_assign ?s = Some (name, ''='' @ e)"
    using rg ip ls by (simp add: re_assign_def)
  have sw: "starts_with (name @ ''=='') ?s" by (simp add: starts_with_def)
  show ?thesis
    unfolding run_stmt_body_def Let_def strip_s lstrip_s
    by (simp only: fn no comp asg sw option.case prod.case if_False if_True if_cancel simp_thms)
qed

lemma eval_unknown_token:
  "env sa ''= 5'' = None \<Longrightarrow> Runtime_eval (Suc n) ''= 5'' sa = (Inr (VStr ''= 5''), sa)"
  by (simp add: model_defs)

lemma eval_unspaced_comparison:
  "env sa ''x'' = Some (VInt 5) \<Longrightarrow>
   Runtime_eval (Suc (Suc n)) ''x==5'' sa = (Inr (VBool True), sa)"
  by (simp add: model_defs)

text \<open>C10, as the claim states it, fails: a name that begins with \<open>undeploy\<close>, or one of the words
  \<open>if\<close>, \<open>while\<close>, \<open>for\<close>, \<open>return\<close>, \<open>var\<close>, \<open>let\<close>, is taken by an earlier branch of
  \<open>_run_stmt\<close>, and the statement \<open>name == 5\<close> binds nothing.\<close>

theorem keyword_led_comparison_binds_nothing:
  "Runtime_run_stmt (Suc 0) ''undeployed == 5'' Runtime_init =
     (Inl (ParseError ''Not a function call: undeployed == 5''), Runtime_init)
   \<and> Runtime_run_stmt (Suc 0) ''var == 5'' Runtime_init =
     (Inl (CherryRuntimeError ''Invalid declaration: var == 5''), Runtime_init)
   \<and> env (snd (Runtime_run_stmt (Suc (Suc (Suc 0))) ''return == 5'' Runtime_init)) ''return'' = None
   \<and> env (snd (Runtime_run_stmt (Suc (Suc (Suc 0))) ''if == 5'' Runtime_init)) ''if'' = None"
  by (simp add: model_defs Runtime_init_def run_if_loop.simps)

text \<open>C10 (amended): let \<open>name\<close> be an identifier that is none of \<open>if\<close>, \<open>while\<close>, \<open>for\<close>, \<open>return\<close>,
  \<open>var\<close>, \<open>let\<close> and does not begin with \<open>undeploy\<close>.  A statement \<open>name == expr\<close> with white space
  between the name and \<open>==\<close> is run as an assignment: the text from the second \<open>=\<close> on is
  evaluated and \<open>name\<close> is bound to the result, which for \<open>name == 5\<close> is the string \<open>= 5\<close>.  The
  unspaced statement \<open>name==expr\<close> is handed to \<open>_eval\<close> as an expression and leaves every binding
  as it was; \<open>x==5\<close> is then the comparison.\<close>

theorem spaced_comparison_rebinds_name:
  assumes "is_identifier name" and "\<not> keyword_led name"
    and "ws \<noteq> []" and "list_all is_space ws"
    and "e = [] \<or> \<not> is_space (last e)"
  shows "Runtime_run_stmt (Suc n) (name @ ws @ ''=='' @ e) =
           bnd (Runtime_eval n (''='' @ e)) (\<lambda>v. bnd (set_var name v) (\<lambda>_. ret v))
       \<and> (Runtime_eval n (''='' @ e) sa = (Inr v, sb) \<longrightarrow>
            Runtime_run_stmt (Suc n) (name @ ws @ ''=='' @ e) sa =
              (Inr v, sb\<lparr>env := (env sb)(name \<mapsto> v)\<rparr>))
       \<and> (env sa ''= 5'' = None \<longrightarrow>
            Runtime_run_stmt (Suc (Suc n)) (name @ ws @ ''== 5'') sa =
              (Inr (VStr ''= 5''), sa\<lparr>env := (env sa)(name \<mapsto> VStr ''= 5'')\<rparr>))
       \<and> Runtime_run_stmt (Suc n) (name @ ''=='' @ e) = Runtime_eval n (name @ ''=='' @ e)
       \<and> env (snd (Runtime_run_stmt (Suc n) (name @ ''=='' @ e) sa)) = env sa
       \<and> (env sa ''x'' = Some (VInt 5) \<longrightarrow>
            Runtime_run_stmt (Suc (Suc (Suc n))) ''x==5'' sa = (Inr (VBool True), sa))"
proof -
  have spaced: "Runtime_run_stmt (Suc m) (name @ ws @ ''=='' @ e') =
      bnd (Runtime_eval m (''='' @ e')) (\<lambda>v. bnd (set_var name v) (\<lambda>_. ret v))"
    if "e' = [] \<or> \<not> is_space (last e')" for m e'
    using spaced_comparison_is_assignment[OF assms(1-4) that] by simp
  have unspaced: "Runtime_run_stmt (Suc n) (name @ ''=='' @ e) = Runtime_eval n (name @ ''=='' @ e)"
    using unspaced_comparison_is_expression[OF assms(1,2,5)] by simp
  have a: "Runtime_run_stmt (Suc n) (name @ ws @ ''=='' @ e) =
      bnd (Runtime_eval n (''='' @ e)) (\<lambda>v. bnd (set_var name v) (\<lambda>_. ret v))"
    using assms(5) by (rule spaced)
  have b: "Runtime_run_stmt (Suc n) (name @ ws @ ''=='' @ e) sa =
      (Inr v, sb\<lparr>env := (env sb)(name \<mapsto> v)\<rparr>)"
    if "Runtime_eval n (''='' @ e) sa = (Inr v, sb)"
    unfolding a using that by (simp add: bnd_def set_var_def ret_def)
  have five: "'' 5'' = [] \<or> \<not> is_space (last '' 5'')" by (simp add: is_space_def)
  have c: "Runtime_run_stmt (Suc (Suc n)) (name @ ws @ ''== 5'') sa =
      (Inr (VStr ''= 5''), sa\<lparr>env := (env sa)(name \<mapsto> VStr ''= 5'')\<rparr>)"
    if "env sa ''= 5'' = None"
    using spaced[OF five, of "Suc n"] eval_unknown_token[OF that, of n]
    by (simp add: bnd_def set_var_def ret_def)
  have d: "env (snd (Runtime_run_stmt (Suc n) (name @ ''=='' @ e) sa)) = env sa"
    unfolding unspaced using keeps_env_Runtime_eval[of n "name @ ''=='' @ e"]
    by (simp add: keeps_env_def)
  have x: "is_identifier ''x''" "\<not> keyword_led ''x''"
    by (simp_all add: is_identifier_def is_alpha_us_def keyword_led_def starts_with_def)
  have f: "Runtime_run_stmt (Suc (Suc (Suc n))) ''x==5'' sa = (Inr (VBool True), sa)"
    if "env sa ''x'' = Some (VInt 5)"
    using unspaced_comparison_is_expression[OF x, of "''5''" "Runtime_eval (Suc (Suc n))"
        "Runtime_run_stmt (Suc (Suc n))"] eval_unspaced_comparison[OF that, of n]
    by (simp add: is_space_def)
  from a b c unspaced d f show ?thesis by blast
qed

definition c10_state :: state where
  "c10_state = Runtime_init\<lparr>env := [''x'' \<mapsto> VInt 5]\<rparr>"

theorem spaced_comparison_rebinds_name_witness:
  "Runtime_run_stmt (Suc (Suc 0)) ''x == 5'' c10_state =
     (Inr (VStr ''= 5''), c10_state\<lparr>env := (env c10_state)(''x'' \<mapsto> VStr ''= 5'')\<rparr>)
   \<and> Runtime_run_stmt (Suc (Suc (Suc (Suc 0)))) ''x==5'' c10_state = (Inr (VBool True), c10_state)
   \<and> env (snd (Runtime_run_stmt (Suc (Suc 0)) ''x== 5'' c10_state)) = env c10_state"
proof -
  have h: "is_identifier ''x''" "\<not> keyword_led ''x''" "'' '' \<noteq> []" "list_all is_space '' ''"
    "'' 5'' = [] \<or> \<not> is_space (last '' 5'')"
    by (simp_all add: is_identifier_def is_alpha_us_def keyword_led_def starts_with_def is_space_def)
  have s: "env c10_state ''= 5'' = None" "env c10_state ''x'' = Some (VInt 5)"
    by (simp_all add: c10_state_def Runtime_init_def)
  have p: "Runtime_eval (Suc 0) ''= 5'' c10_state = (Inr (VStr ''= 5''), c10_state)"
    using s(1) by (rule eval_unknown_token)
  from spaced_comparison_rebinds_name[OF h, of "Suc 0" c10_state "VStr ''= 5''" c10_state,
      unfolded append.simps] p s
  show ?thesis by blast
qed

end
